theory Spec2Isabelle
  imports Complex_Main "HOL-Library.Word" "HOL-Library.AList"
begin

unbundle bit_operations_syntax

section \<open>Content hasher (chttp/livewire.go, htmlHash)\<close>

text \<open>
  \<^verbatim>\<open>func htmlHash(h template.HTML) string {
      return fmt.Sprintf("%08x", crc32.ChecksumIEEE([]byte(h)))
  }\<close>
  A Go string is its bytes, so markup is a \<^typ>\<open>string\<close> (a list of 8-bit characters).
  \<open>crc32.ChecksumIEEE\<close> of the Go standard library is CRC-32 with the reflected IEEE
  polynomial \<open>0xedb88320\<close>: the register starts as all ones, every byte is XOR-ed into
  its low end and shifted out in eight steps, and the register is complemented at the end.
\<close>

type_synonym uint32 = "32 word"

definition IEEE :: uint32 where
  "IEEE = 0xedb88320"

definition crcShift :: "uint32 \<Rightarrow> uint32" where
  "crcShift c = (if bit c 0 then drop_bit 1 c XOR IEEE else drop_bit 1 c)"

primrec crcShifts :: "nat \<Rightarrow> uint32 \<Rightarrow> uint32" where
  "crcShifts 0 c = c"
| "crcShifts (Suc n) c = crcShifts n (crcShift c)"

definition byteOf :: "char \<Rightarrow> uint32" where
  "byteOf b = of_nat (of_char b)"

definition crcUpdateByte :: "uint32 \<Rightarrow> char \<Rightarrow> uint32" where
  "crcUpdateByte c b = crcShifts 8 (c XOR byteOf b)"

definition ChecksumIEEE :: "string \<Rightarrow> uint32" where
  "ChecksumIEEE p = NOT (foldl crcUpdateByte (NOT 0) p)"

text \<open>
  \<open>%08x\<close> prints an unsigned value in lower-case hexadecimal, padded with zeros to at
  least eight digits; a \<open>uint32\<close> never needs more than eight.
\<close>

definition hexDigit :: "int \<Rightarrow> char" where
  "hexDigit d = ''0123456789abcdef'' ! nat (d mod 16)"

primrec hexPad :: "nat \<Rightarrow> int \<Rightarrow> string" where
  "hexPad 0 n = []"
| "hexPad (Suc k) n = hexPad k (n div 16) @ [hexDigit n]"

definition sprintf_08x :: "uint32 \<Rightarrow> string" where
  "sprintf_08x w = hexPad 8 (uint w)"

definition htmlHash :: "string \<Rightarrow> string" where
  "htmlHash h = sprintf_08x (ChecksumIEEE h)"


section \<open>The wire protocol (chttp/livewire.go)\<close>

text \<open>
  The structs of the protocol, field by field. A Go slice that may be \<open>nil\<close> is a
  \<open>list option\<close> (\<open>None\<close> is \<open>nil\<close>, which JSON writes as \<open>null\<close>, and \<open>Some []\<close> is the
  empty slice, written \<open>[]\<close>); a \<open>json.RawMessage\<close> is the bytes it holds. Several structs
  share field names; the later record hides the short name, so such fields are written
  with the record's name in front.
\<close>

record LivewireFingerprint =
  ID :: string
  Name :: string
  Locale :: string
  Path :: string
  Method :: string
  InvalidationHash :: string

record LivewireEffectsRequest =
  Listeners :: "string list option"

record LivewireEffectsResponse =
  Dirty :: "string list option"
  HTML :: string

record LivewireServerMemo =
  HTMLHash :: string
  Data :: string
  DataMeta :: "string list option"
  Children :: "string list option"
  Errors :: "string list option"

record LivewireUpdate =
  Type :: string
  Payload :: string

record LivewireUpdatePayloadCallMethod =
  ID :: string
  Method :: string
  Params :: "string list option"

record LivewireUpdatePayloadSyncInput =
  ID :: string
  Name :: string
  Value :: string

record LivewireMessage =
  Fingerprint :: LivewireFingerprint
  ServerMemo :: LivewireServerMemo
  Updates :: "LivewireUpdate list"

record LivewireMessageResponse =
  Effects :: LivewireEffectsResponse
  ServerMemo :: LivewireServerMemo

section \<open>Values the renderer handles through reflection\<close>

text \<open>
  A component's data is whatever its \<open>InitialData\<close> method returns, in practice a pointer
  to a struct. The renderer looks into it in one place only, \<open>FieldByName(..).Set(..)\<close>,
  which needs the struct's fields: the name, whether the field is exported (reflection
  refuses to set an unexported one), whether a \<open>string\<close> may be assigned to the declared
  type, and the value. Values of other types stay opaque (\<open>'o\<close>). Structs are flat: fields
  promoted from embedded structs are not modelled.
\<close>

datatype 'o gvalue = GString string | GOther 'o

datatype ftype = TString | TInterface | TOther

record 'o StructField =
  fieldName :: string
  exported :: bool
  fieldType :: ftype
  fieldValue :: "'o gvalue"

datatype 'o godata = Struct "'o StructField list" | NonStruct 'o

text \<open>
  Errors. \<open>cerrors.New(cause, message, tags)\<close> wraps an optional cause with a message and
  a map of tags; an error that comes out of a library or out of a component's method is
  kept as its text.
\<close>

datatype 'o tag =
    TStr string
  | TCall LivewireUpdatePayloadCallMethod
  | TData "'o godata"
  | TFingerprint LivewireFingerprint

datatype 'o cerror =
    GoError string
  | CError "'o cerror option" string "(string \<times> 'o tag) list"

text \<open>
  What a call does: it returns a value, it returns an error (every such \<open>return\<close> of the
  source gives the zero value, \<open>""\<close> or \<open>nil\<close>, as its first result), or it panics and
  returns nothing.
\<close>

datatype ('o, 'a) outcome = Ok 'a | Err "'o cerror" | Panic string

text \<open>
  \<open>dataVal.Elem().FieldByName(name).Set(reflect.ValueOf(value))\<close> with a string value.
  \<open>FieldByName\<close> gives the zero \<open>Value\<close> when the struct has no such field, and panics on
  a value that is not a struct; \<open>Set\<close> panics on the zero \<open>Value\<close>, on an unexported
  field, and when a string is not assignable to the field's type.
\<close>

fun Set_FieldByName :: "string \<Rightarrow> string \<Rightarrow> 'o StructField list \<Rightarrow> string + 'o StructField list" where
  "Set_FieldByName name v [] = Inl ''reflect: call of reflect.Value.Set on zero Value''"
| "Set_FieldByName name v (f # fs) =
     (if fieldName f = name then
        (if \<not> exported f then
           Inl ''reflect: reflect.Value.Set using value obtained using unexported field''
         else if fieldType f = TOther then
           Inl ''reflect.Set: value of type string is not assignable to the type of the field''
         else Inr (f\<lparr>fieldValue := GString v\<rparr> # fs))
      else (case Set_FieldByName name v fs of
              Inl p \<Rightarrow> Inl p
            | Inr fs' \<Rightarrow> Inr (f # fs')))"

definition syncField :: "string \<Rightarrow> string \<Rightarrow> 'o godata \<Rightarrow> ('o, 'o godata) outcome" where
  "syncField name v dataVal =
     (case dataVal of
        NonStruct x \<Rightarrow> Panic ''reflect: call of reflect.Value.FieldByName on a Value that is not a struct''
      | Struct fs \<Rightarrow>
          (case Set_FieldByName name v fs of
             Inl p \<Rightarrow> Panic p
           | Inr fs' \<Rightarrow> Ok (Struct fs')))"

text \<open>
  A component, as reflection sees it.
  \<^item> \<open>InitialData\<close>: the results of \<open>MethodByName("InitialData").Call(nil)\<close>; \<open>None\<close> when
    the call panics (no such method, or a method that takes arguments).
  \<^item> \<open>InitialDataElem\<close>: \<open>MethodByName("InitialData").Type().Out(0).Elem()\<close> followed by
    \<open>reflect.New\<close>, as the name of the type and its zero value; \<open>None\<close> when the chain
    panics (no method, no result, or a result type without an element type, such as a
    struct returned by value).
  \<^item> \<open>Methods m\<close>: what \<open>MethodByName(m).Call([dataVal])\<close> does; \<open>None\<close> when there is no
    method of that name. The method receives the pointer to the data, so it returns
    the data as it left it next to its results.
\<close>

datatype 'o retval =
    RetNil
  | RetError "'o cerror"
  | RetNotNillable
  | RetNotError

datatype 'o call = CallPanics string | CallReturns "'o retval list" "'o godata"

record 'o LivewireComponent =
  Name :: string
  InitialData :: "'o godata list option"
  InitialDataElem :: "(string \<times> 'o godata) option"
  Methods :: "string \<Rightarrow> ('o godata \<Rightarrow> 'o call) option"

record 'o HTMLRenderer =
  livewireComponentByName :: "string \<Rightarrow> 'o LivewireComponent option"

text \<open>
  \<open>NewHTMLRenderer\<close> fills the registry from the list of components, a later component
  replacing an earlier one of the same name. The directories and the render functions
  it also stores are reached only through the template engine (see the collaborators
  below), and its switch to the local \<open>web\<close> directory does not touch the registry.
\<close>

definition NewHTMLRenderer :: "'o LivewireComponent list \<Rightarrow> 'o HTMLRenderer" where
  "NewHTMLRenderer cs =
     \<lparr>livewireComponentByName =
        foldl (\<lambda>m c. m(LivewireComponent.Name c \<mapsto> c)) Map.empty cs\<rparr>"


section \<open>Maps, their iteration order, and decoded JSON\<close>

text \<open>
  A Go map is an association list read through \<^const>\<open>map_of\<close>: the first pair of a key
  is the map's entry for it. \<open>for k, v := range m\<close> visits every entry once, in an order
  Go leaves open and changes from run to run. The order of a run is a list of numbers:
  each one picks the next entry among those not visited yet, so every list of numbers
  gives an order and every order comes from one.
\<close>

type_synonym ('k, 'v) gomap = "('k \<times> 'v) list"

fun pickOrder :: "nat list \<Rightarrow> 'a list \<Rightarrow> 'a list" where
  "pickOrder [] xs = xs"
| "pickOrder (n # ns) xs =
     (if xs = [] then []
      else xs ! (n mod length xs)
           # pickOrder ns (take (n mod length xs) xs @ drop (Suc (n mod length xs)) xs))"

definition goRange :: "nat list \<Rightarrow> ('k, 'v) gomap \<Rightarrow> ('k \<times> 'v) list" where
  "goRange order m = pickOrder order (AList.clearjunk m)"

text \<open>
  \<open>json.Unmarshal\<close> into \<open>map[string]interface{}\<close> gives values of six shapes: \<open>nil\<close>,
  \<open>bool\<close>, \<open>float64\<close>, \<open>string\<close>, \<open>[]interface{}\<close> and \<open>map[string]interface{}\<close>. JSON has
  no NaN and no infinity, so the \<open>float64\<close> is a finite number, here the rational it
  denotes. \<open>reflect.DeepEqual\<close> on such values compares the shapes and then the
  contents: slices by length and position, maps by size and key.
\<close>

datatype jvalue =
    JNull
  | JBool bool
  | JNumber rat
  | JString string
  | JArray "jvalue list"
  | JObject "(string \<times> jvalue) list"

function DeepEqual :: "jvalue \<Rightarrow> jvalue \<Rightarrow> bool" where
  "DeepEqual JNull w = (w = JNull)"
| "DeepEqual (JBool a) w = (w = JBool a)"
| "DeepEqual (JNumber a) w = (w = JNumber a)"
| "DeepEqual (JString a) w = (w = JString a)"
| "DeepEqual (JArray xs) w =
     (case w of
        JArray ys \<Rightarrow> length xs = length ys \<and> list_all (\<lambda>(x, y). DeepEqual x y) (zip xs ys)
      | _ \<Rightarrow> False)"
| "DeepEqual (JObject m) w =
     (case w of
        JObject m' \<Rightarrow>
          length (AList.clearjunk m) = length (AList.clearjunk m') \<and>
          list_all (\<lambda>(k, x). case map_of m' k of None \<Rightarrow> False | Some y \<Rightarrow> DeepEqual x y)
            (AList.clearjunk m)
      | _ \<Rightarrow> False)"
  by pat_completeness auto

termination DeepEqual
proof (relation "measure (\<lambda>(a, b). size a)", goal_cases)
  case 1
  show ?case by simp
next
  case (2 xs w ys z x y)
  then have "x \<in> set xs" by (auto dest: set_zip_leftD)
  then have "size x \<le> size_list size xs" by (rule size_list_estimation') simp
  then show ?case by simp
next
  case (3 m w m' z k x y)
  then have "(k, x) \<in> set (AList.clearjunk m)" by simp
  then have "(k, x) \<in> Map.graph (map_of m)" by (simp only: graph_map_of)
  then have "map_of m k = Some x" by (rule in_graphD)
  then have "(k, x) \<in> set m" by (rule map_of_SomeD)
  then have "size x \<le> size_list (size_prod (\<lambda>x. 0) size) m"
    by (rule size_list_estimation') simp
  then show ?case by simp
qed

text \<open>
  The loop that fills \<open>effects.Dirty\<close> (lines 309 to 320 of \<open>livewireUpdate\<close>), over the
  entries of \<open>dataPre\<close> in the order this run visits them:
  \<^verbatim>\<open>for k, v := range dataPre {
      vPost, ok := dataPost[k]
      if !ok { effects.Dirty = append(effects.Dirty, k); continue }
      if !reflect.DeepEqual(v, vPost) { effects.Dirty = append(effects.Dirty, k); continue }
  }\<close>
\<close>

fun dirtyLoop :: "(string \<times> jvalue) list \<Rightarrow> (string, jvalue) gomap \<Rightarrow> string list \<Rightarrow> string list" where
  "dirtyLoop [] dataPost dirty = dirty"
| "dirtyLoop ((k, v) # rest) dataPost dirty =
     (case map_of dataPost k of
        None \<Rightarrow> dirtyLoop rest dataPost (dirty @ [k])
      | Some vPost \<Rightarrow>
          if \<not> DeepEqual v vPost then dirtyLoop rest dataPost (dirty @ [k])
          else dirtyLoop rest dataPost dirty)"

section \<open>The collaborators\<close>

text \<open>
  The renderer calls into \<open>encoding/json\<close>, \<open>html/template\<close>, \<open>net/http\<close> and \<open>goquery\<close>.
  None of them is part of this repository, and the renderer only looks at whether a
  call gave a value or an error, so each call is a function of its arguments that
  returns one or the other; every theorem below holds for all such functions.
  \<^item> \<open>Marshal\<close>, \<open>Unmarshal\<close>: \<open>json.Marshal\<close> of a data value, and \<open>json.Unmarshal\<close> of
    bytes into a fresh value of the data's type (the second argument is that value).
  \<^item> \<open>UnmarshalMap\<close>, \<open>UnmarshalCallMethod\<close>, \<open>UnmarshalSyncInput\<close>: \<open>json.Unmarshal\<close> into
    a \<open>map[string]interface{}\<close> and into the two payload structs.
  \<^item> \<open>MarshalInitialData\<close>: \<open>json.Marshal\<close> of the map with the keys \<open>fingerprint\<close>,
    \<open>serverMemo\<close> and \<open>effects\<close>.
  \<^item> \<open>ParseFS name pattern\<close>: \<open>template.New(name).Funcs(..).ParseFS(r.htmlDir, pattern)\<close>,
    \<open>None\<close> when the templates parse. \<open>Execute name pattern req data\<close>: \<open>tmpl.Execute\<close> of
    that template with the function map built for the request \<open>req\<close>; nested components
    rendered by the template are part of what it returns.
  \<^item> \<open>NewRequest\<close>: \<open>http.NewRequest(method, url, nil)\<close>.
  \<^item> \<open>NewDocumentFromReader\<close>: the parsed document, as the element children of its
    \<open>body\<close>, each with its tag, its attributes and what it contains; \<open>Render\<close>:
    \<open>html.Render\<close> of one node.
\<close>

record Request =
  Method :: string
  URL_Path :: string
  Rest :: string

record HtmlNode =
  Tag :: string
  Attr :: "(string \<times> string) list"
  Inner :: string

record 'o Libs =
  Marshal :: "'o godata \<Rightarrow> 'o cerror + string"
  Unmarshal :: "string \<Rightarrow> 'o godata \<Rightarrow> 'o cerror + 'o godata"
  UnmarshalMap :: "string \<Rightarrow> 'o cerror + (string, jvalue) gomap"
  UnmarshalCallMethod :: "string \<Rightarrow> 'o cerror + LivewireUpdatePayloadCallMethod"
  UnmarshalSyncInput :: "string \<Rightarrow> 'o cerror + LivewireUpdatePayloadSyncInput"
  MarshalInitialData ::
    "LivewireFingerprint \<Rightarrow> LivewireServerMemo \<Rightarrow> LivewireEffectsRequest \<Rightarrow> 'o cerror + string"
  ParseFS :: "string \<Rightarrow> string \<Rightarrow> 'o cerror option"
  Execute :: "string \<Rightarrow> string \<Rightarrow> Request \<Rightarrow> 'o godata \<Rightarrow> 'o cerror + string"
  NewRequest :: "string \<Rightarrow> string \<Rightarrow> 'o cerror + Request"
  NewDocumentFromReader :: "string \<Rightarrow> 'o cerror + HtmlNode list"
  Render :: "HtmlNode \<Rightarrow> 'o cerror + string"

section \<open>HTML mutator (chttp/livewire.go, updateHTML)\<close>

text \<open>
  \<open>doc.Find("body>*:first-child")\<close> selects the first element child of the body, or
  nothing when the body has no element. \<open>Selection.SetAttr\<close> overwrites the first
  attribute of that key on every selected node and appends the attribute where there
  is none. \<open>goquery.OuterHtml\<close> renders the first selected node, and gives the empty
  string for an empty selection.
\<close>

definition newline :: string where
  "newline = [CHR 0x0A]"

definition Find_first_child :: "HtmlNode list \<Rightarrow> HtmlNode list" where
  "Find_first_child doc = take 1 doc"

fun setAttribute :: "string \<Rightarrow> string \<Rightarrow> (string \<times> string) list \<Rightarrow> (string \<times> string) list" where
  "setAttribute k v [] = [(k, v)]"
| "setAttribute k v ((k', v') # as) =
     (if k' = k then (k', v) # as else (k', v') # setAttribute k v as)"

definition SetAttr :: "string \<Rightarrow> string \<Rightarrow> HtmlNode list \<Rightarrow> HtmlNode list" where
  "SetAttr k v sel = map (\<lambda>n. n\<lparr>Attr := setAttribute k v (Attr n)\<rparr>) sel"

definition OuterHtml :: "'o Libs \<Rightarrow> HtmlNode list \<Rightarrow> 'o cerror + string" where
  "OuterHtml libs sel = (case sel of [] \<Rightarrow> Inr [] | n # ns \<Rightarrow> Render libs n)"

definition updateHTML ::
  "'o Libs \<Rightarrow> nat list \<Rightarrow> string \<Rightarrow> (string, string) gomap \<Rightarrow> string \<Rightarrow> 'o cerror + string" where
  "updateHTML libs order html attrs footer =
     (case NewDocumentFromReader libs html of
        Inl err \<Rightarrow> Inl (CError (Some err) ''failed to parse html'' [(''html'', TStr html)])
      | Inr doc \<Rightarrow>
          (let root = foldl (\<lambda>sel (k, v). SetAttr k v sel) (Find_first_child doc)
                        (goRange order attrs)
           in case OuterHtml libs root of
                Inl err \<Rightarrow> Inl (CError (Some err) ''failed to render html'' [])
              | Inr out \<Rightarrow> Inr (out @ newline @ footer @ newline)))"

section \<open>Renderer\<close>

text \<open>
  \<open>renderPartialFromDirWithFuncs\<close> parses the templates of one directory of \<open>r.htmlDir\<close>
  and executes the one called \<open>name + ".html"\<close>; \<open>path.Join("src", dir, "*.html")\<close> is
  \<open>src/dir/*.html\<close> for the two directories the renderer uses. The function map it is
  given is \<open>r.funcMap(req)\<close>, so the request stands for it.
\<close>

definition renderPartialFromDirWithFuncs ::
  "'o Libs \<Rightarrow> string \<Rightarrow> string \<Rightarrow> Request \<Rightarrow> 'o godata \<Rightarrow> 'o cerror + string" where
  "renderPartialFromDirWithFuncs libs dir name fnMap data =
     (case ParseFS libs (name @ ''.html'') (''src/'' @ dir @ ''/*.html'') of
        Some err \<Rightarrow>
          Inl (CError (Some err) ''failed to parse partial template''
                 [(''dir'', TStr dir), (''name'', TStr name)])
      | None \<Rightarrow>
          (case Execute libs (name @ ''.html'') (''src/'' @ dir @ ''/*.html'') fnMap data of
             Inl err \<Rightarrow>
               Inl (CError (Some err) ''failed to execute partial template''
                      [(''dir'', TStr dir), (''name'', TStr name)])
           | Inr dest \<Rightarrow> Inr dest))"

definition renderPartialFromDir ::
  "'o Libs \<Rightarrow> Request \<Rightarrow> string \<Rightarrow> string \<Rightarrow> 'o godata \<Rightarrow> 'o cerror + string" where
  "renderPartialFromDir libs req dir name data =
     renderPartialFromDirWithFuncs libs dir name req data"

text \<open>
  Modelled from the spec: \<open>crandom.GenerateRandomString\<close> (package \<open>crandom\<close> is not among
  the sources). The spec asks for a fresh random opaque id; the call site asks for 20
  characters. The function draws as many characters as it is asked for from the
  process's source of randomness, which is a parameter here: the \<open>i\<close>-th draw of this
  call is \<open>rnd i\<close>.
\<close>

definition GenerateRandomString :: "nat \<Rightarrow> (nat \<Rightarrow> char) \<Rightarrow> string" where
  "GenerateRandomString n rnd = map rnd [0..<n]"

text \<open>
  \<open>livewireInitial\<close> (lines 139 to 201). Beyond the request and the component's name,
  a run has its random draws \<open>rnd\<close> and the order \<open>order\<close> in which \<open>updateHTML\<close> walks
  the two-entry attribute map.
\<close>

definition livewireInitial ::
  "'o Libs \<Rightarrow> 'o HTMLRenderer \<Rightarrow> (nat \<Rightarrow> char) \<Rightarrow> nat list \<Rightarrow> Request \<Rightarrow> string
     \<Rightarrow> ('o, string) outcome" where
  "livewireInitial libs r rnd order req name =
     (let id = GenerateRandomString 20 rnd in
      case livewireComponentByName r name of
        None \<Rightarrow> Err (CError None ''component does not exist'' [(''name'', TStr name)])
      | Some c \<Rightarrow>
      (case InitialData c of
        None \<Rightarrow> Panic ''reflect: call of reflect.Value.Call on zero Value''
      | Some initialDataRet \<Rightarrow>
      (case initialDataRet of
        [data] \<Rightarrow>
          (case renderPartialFromDir libs req ''livewire'' name data of
            Inl err \<Rightarrow>
              Err (CError (Some err) ''failed to execute html template'' [(''data'', TData data)])
          | Inr out \<Rightarrow>
          (case Marshal libs data of
            Inl err \<Rightarrow> Err (CError (Some err) ''failed to marshal data as json'' [])
          | Inr dataJ \<Rightarrow>
          (case MarshalInitialData libs
                  \<lparr>LivewireFingerprint.ID = id, Name = name, Locale = ''en'',
                   Path = URL_Path req, Method = Request.Method req,
                   InvalidationHash = ''aaa''\<rparr>
                  \<lparr>HTMLHash = htmlHash out, Data = dataJ, DataMeta = None,
                   Children = None, Errors = None\<rparr>
                  \<lparr>Listeners = None\<rparr> of
            Inl err \<Rightarrow> Err (CError (Some err) ''failed to marshal initial data'' [])
          | Inr initialData \<Rightarrow>
          (case updateHTML libs order out
                  [(''wire:id'', id), (''wire:initial-data'', initialData)]
                  (''<!-- Livewire Component wire-end:'' @ id @ '' -->'') of
            Inl err \<Rightarrow> Err (CError (Some err) ''failed to render html'' [])
          | Inr html \<Rightarrow> Ok html))))
      | _ \<Rightarrow> Err (CError None ''InitialData return value is invalid'' []))))"

text \<open>
  One turn of the loop over \<open>message.Updates\<close> (lines 223 to 267), on the data value
  behind \<open>dataVal\<close>. A method's results are read as \<open>ret[0]\<close>: indexing panics when there
  is no result, \<open>IsNil\<close> panics on a result that cannot be nil, and the assertion
  \<open>.(error)\<close> panics on a non-nil result that is no error.
\<close>

definition applyUpdate ::
  "'o Libs \<Rightarrow> 'o LivewireComponent \<Rightarrow> string \<Rightarrow> 'o godata \<Rightarrow> LivewireUpdate
     \<Rightarrow> ('o, 'o godata) outcome" where
  "applyUpdate libs c component dataVal update =
     (if Type update = ''callMethod'' then
        (case UnmarshalCallMethod libs (Payload update) of
           Inl err \<Rightarrow>
             Err (CError (Some err) ''failed to unmarshal payload''
                    [(''type'', TStr (Type update)), (''payload'', TStr (Payload update))])
         | Inr payload \<Rightarrow>
         (case Methods c (LivewireUpdatePayloadCallMethod.Method payload) of
           None \<Rightarrow> Panic ''reflect: call of reflect.Value.Call on zero Value''
         | Some m \<Rightarrow>
         (case m dataVal of
           CallPanics p \<Rightarrow> Panic p
         | CallReturns ret dataVal' \<Rightarrow>
         (case ret of
           [] \<Rightarrow> Panic ''runtime error: index out of range [0] with length 0''
         | RetNil # rest \<Rightarrow> Ok dataVal'
         | RetNotNillable # rest \<Rightarrow> Panic ''reflect: call of reflect.Value.IsNil on a Value that cannot be nil''
         | RetNotError # rest \<Rightarrow> Panic ''interface conversion: the value is not an error''
         | RetError err # rest \<Rightarrow>
             Err (CError (Some err) ''failed to call method on component''
                    [(''component'', TStr component), (''payload'', TCall payload)])))))
      else if Type update = ''syncInput'' then
        (case UnmarshalSyncInput libs (Payload update) of
           Inl err \<Rightarrow>
             Err (CError (Some err) ''failed to unmarshal payload''
                    [(''type'', TStr (Type update)), (''payload'', TStr (Payload update))])
         | Inr payload \<Rightarrow>
             syncField (LivewireUpdatePayloadSyncInput.Name payload) (Value payload) dataVal)
      else Err (CError None ''unknown update type'' [(''type'', TStr (Type update))]))"

fun applyUpdates ::
  "'o Libs \<Rightarrow> 'o LivewireComponent \<Rightarrow> string \<Rightarrow> 'o godata \<Rightarrow> LivewireUpdate list
     \<Rightarrow> ('o, 'o godata) outcome" where
  "applyUpdates libs c component dataVal [] = Ok dataVal"
| "applyUpdates libs c component dataVal (update # updates) =
     (case applyUpdate libs c component dataVal update of
        Ok dataVal' \<Rightarrow> applyUpdates libs c component dataVal' updates
      | Err e \<Rightarrow> Err e
      | Panic p \<Rightarrow> Panic p)"

text \<open>
  \<open>livewireUpdate\<close> (lines 203 to 339). \<open>order\<close> is the order in which this run walks
  \<open>dataPre\<close>; the attribute map given to \<open>updateHTML\<close> has one entry, so its order does
  not matter.
\<close>

definition livewireUpdate ::
  "'o Libs \<Rightarrow> 'o HTMLRenderer \<Rightarrow> nat list \<Rightarrow> LivewireMessage
     \<Rightarrow> ('o, LivewireMessageResponse) outcome" where
  "livewireUpdate libs r order message =
     (let fp = Fingerprint message; memo = LivewireMessage.ServerMemo message in
      case livewireComponentByName r (LivewireFingerprint.Name fp) of
        None \<Rightarrow>
          Err (CError None ''component does not exist''
                 [(''name'', TStr (LivewireFingerprint.Name fp))])
      | Some c \<Rightarrow>
      (case InitialDataElem c of
        None \<Rightarrow> Panic ''reflect: the result of InitialData has no element type''
      | Some (typeName, zero) \<Rightarrow>
      (case Unmarshal libs (Data memo) zero of
        Inl err \<Rightarrow>
          Err (CError (Some err) ''failed to unmarshal data into its type''
                 [(''data'', TStr (Data memo)), (''type'', TStr typeName)])
      | Inr dataVal0 \<Rightarrow>
      (case applyUpdates libs c (LivewireFingerprint.Name fp) dataVal0 (Updates message) of
        Panic p \<Rightarrow> Panic p
      | Err e \<Rightarrow> Err e
      | Ok dataVal \<Rightarrow>
      (case NewRequest libs (LivewireFingerprint.Method fp) (Path fp) of
        Inl err \<Rightarrow>
          Err (CError (Some err) ''failed to make initial http request''
                 [(''fingerprint'', TFingerprint fp)])
      | Inr initialReq \<Rightarrow>
      (case renderPartialFromDir libs initialReq ''livewire'' (LivewireFingerprint.Name fp) dataVal of
        Inl err \<Rightarrow>
          Err (CError (Some err) ''failed to execute html template'' [(''data'', TData dataVal)])
      | Inr out \<Rightarrow>
      (case Marshal libs dataVal of
        Inl err \<Rightarrow> Err (CError (Some err) ''failed to marshal data as json'' [])
      | Inr dataJ \<Rightarrow>
      (let updatedHTMLHash = htmlHash out in
       if HTMLHash memo \<noteq> updatedHTMLHash then
         (case UnmarshalMap libs (Data memo) of
           Inl err \<Rightarrow> Err (CError (Some err) ''failed to unmarshal data pre'' [])
         | Inr dataPre \<Rightarrow>
         (case UnmarshalMap libs dataJ of
           Inl err \<Rightarrow> Err (CError (Some err) ''failed to unmarshal data post'' [])
         | Inr dataPost \<Rightarrow>
         (let dirty = dirtyLoop (goRange order dataPre) dataPost [] in
          case updateHTML libs [] out [(''wire:id'', LivewireFingerprint.ID fp)] [] of
            Inl err \<Rightarrow> Err (CError (Some err) ''failed to render html'' [])
          | Inr html \<Rightarrow>
              Ok \<lparr>Effects = \<lparr>Dirty = Some dirty, HTML = html\<rparr>,
                  ServerMemo = \<lparr>HTMLHash = updatedHTMLHash, Data = dataJ, DataMeta = None,
                                 Children = None, Errors = None\<rparr>\<rparr>)))
       else
         Ok \<lparr>Effects = \<lparr>Dirty = Some [], HTML = []\<rparr>,
             ServerMemo = \<lparr>HTMLHash = updatedHTMLHash, Data = dataJ, DataMeta = None,
                            Children = None, Errors = None\<rparr>\<rparr>))))))))"

section \<open>Notions used by the properties\<close>

text \<open>
  \<open>FieldByName\<close> on its own, and the condition under which \<open>Set\<close> accepts a string for
  the field it finds: the data is a struct, the field exists, it is exported, and its
  type takes a string.
\<close>

definition FieldByName :: "string \<Rightarrow> 'o StructField list \<Rightarrow> 'o StructField option" where
  "FieldByName name fs = find (\<lambda>f. fieldName f = name) fs"

definition settable :: "string \<Rightarrow> 'o godata \<Rightarrow> bool" where
  "settable name dataVal =
     (case dataVal of
        NonStruct x \<Rightarrow> False
      | Struct fs \<Rightarrow>
          (case FieldByName name fs of
             None \<Rightarrow> False
           | Some f \<Rightarrow> exported f \<and> fieldType f \<noteq> TOther))"

section \<open>A worked instance\<close>

text \<open>
  Two components and stand-ins for the collaborators, to run the renderer on. The
  component \<open>Counter\<close> has the data
  \<^verbatim>\<open>type CounterData struct {
      A    int    `json:"a"`
      B    int    `json:"b,omitempty"`
      Note string `json:"note,omitempty"`
  }\<close>
  starting at \<open>{A: 1, B: 2}\<close>, and three methods: \<open>Bump\<close> adds one to \<open>B\<close>, \<open>Clear\<close> sets
  \<open>B\<close> to zero, \<open>Fail\<close> returns an error. The component \<open>Stamp\<close> has one field that JSON
  leaves out, \<open>Shown int `json:"-"`\<close>, starting at 3. The template of \<open>Counter\<close> shows
  \<open>B\<close>, the one of \<open>Stamp\<close> shows \<open>Shown\<close>. The stand-ins answer as the
  libraries do on the documents and templates of these two components, and with an
  error elsewhere.
\<close>

definition demoField :: "string \<Rightarrow> ftype \<Rightarrow> int gvalue \<Rightarrow> int StructField" where
  "demoField n t v = \<lparr>fieldName = n, exported = True, fieldType = t, fieldValue = v\<rparr>"

definition counterFields :: "int \<Rightarrow> int \<Rightarrow> string \<Rightarrow> int StructField list" where
  "counterFields a b note =
     [demoField ''A'' TOther (GOther a), demoField ''B'' TOther (GOther b),
      demoField ''Note'' TString (GString note)]"

definition counterData :: "int \<Rightarrow> int \<Rightarrow> string \<Rightarrow> int godata" where
  "counterData a b note = Struct (counterFields a b note)"

definition stampData :: "int \<Rightarrow> int godata" where
  "stampData n = Struct [demoField ''Shown'' TOther (GOther n)]"

definition counterBump :: "int godata \<Rightarrow> int call" where
  "counterBump d =
     (case d of
        Struct [fa, fb, fn] \<Rightarrow>
          (case fieldValue fb of
             GOther b \<Rightarrow> CallReturns [RetNil] (Struct [fa, fb\<lparr>fieldValue := GOther (b + 1)\<rparr>, fn])
           | GString x \<Rightarrow> CallPanics ''reflect: Call using a value of another type'')
      | _ \<Rightarrow> CallPanics ''reflect: Call using a value of another type'')"

definition counterClear :: "int godata \<Rightarrow> int call" where
  "counterClear d =
     (case d of
        Struct [fa, fb, fn] \<Rightarrow> CallReturns [RetNil] (Struct [fa, fb\<lparr>fieldValue := GOther 0\<rparr>, fn])
      | _ \<Rightarrow> CallPanics ''reflect: Call using a value of another type'')"

definition counterFail :: "int godata \<Rightarrow> int call" where
  "counterFail d = CallReturns [RetError (GoError ''out of stock'')] d"

definition Counter :: "int LivewireComponent" where
  "Counter =
     \<lparr>LivewireComponent.Name = ''Counter'',
      InitialData = Some [counterData 1 2 []],
      InitialDataElem = Some (''CounterData'', counterData 0 0 []),
      Methods = map_of [(''Bump'', counterBump), (''Clear'', counterClear),
                        (''Fail'', counterFail)]\<rparr>"

definition Stamp :: "int LivewireComponent" where
  "Stamp =
     \<lparr>LivewireComponent.Name = ''Stamp'',
      InitialData = Some [stampData 3],
      InitialDataElem = Some (''StampData'', stampData 0),
      Methods = Map.empty\<rparr>"

definition demoRenderer :: "int HTMLRenderer" where
  "demoRenderer = NewHTMLRenderer [Counter, Stamp]"

definition counterDocs :: "(string \<times> int godata) list" where
  \<open>counterDocs =
     [(''{"a":1,"b":2}'', counterData 1 2 []),
      (''{"a":1,"b":3}'', counterData 1 3 []),
      (''{"a":1}'', counterData 1 0 []),
      (''{"a":1,"b":2,"note":"hi"}'', counterData 1 2 ''hi'')]\<close>

definition demoMarshal :: "int godata \<Rightarrow> int cerror + string" where
  \<open>demoMarshal d =
     (case map_of (map (\<lambda>(raw, x). (x, raw)) counterDocs) d of
        Some raw \<Rightarrow> Inr raw
      | None \<Rightarrow>
          if d = stampData 3 \<or> d = stampData 0 then Inr ''{}''
          else Inl (GoError ''json: unsupported value''))\<close>

definition demoUnmarshal :: "string \<Rightarrow> int godata \<Rightarrow> int cerror + int godata" where
  \<open>demoUnmarshal raw zero =
     (if zero = counterData 0 0 [] then
        (case map_of counterDocs raw of
           Some d \<Rightarrow> Inr d
         | None \<Rightarrow> Inl (GoError ''json: cannot unmarshal the document''))
      else if raw = ''{}'' then Inr zero
      else Inl (GoError ''json: cannot unmarshal the document''))\<close>

definition demoUnmarshalMap :: "string \<Rightarrow> int cerror + (string, jvalue) gomap" where
  \<open>demoUnmarshalMap raw =
     (case map_of
        [(''{"a":1,"b":2}'', [(''a'', JNumber 1), (''b'', JNumber 2)]),
         (''{"a":1,"b":3}'', [(''a'', JNumber 1), (''b'', JNumber 3)]),
         (''{"a":1}'', [(''a'', JNumber 1)]),
         (''{"a":1,"b":2,"note":"hi"}'',
            [(''a'', JNumber 1), (''b'', JNumber 2), (''note'', JString ''hi'')]),
         (''{}'', [])] raw of
        Some m \<Rightarrow> Inr m
      | None \<Rightarrow> Inl (GoError ''json: cannot unmarshal the document''))\<close>

definition demoUnmarshalCallMethod ::
  "string \<Rightarrow> int cerror + LivewireUpdatePayloadCallMethod" where
  \<open>demoUnmarshalCallMethod raw =
     (case map_of
        [(''{"id":"u1","method":"Bump","params":[]}'', ''Bump''),
         (''{"id":"u1","method":"Clear","params":[]}'', ''Clear''),
         (''{"id":"u1","method":"Fail","params":[]}'', ''Fail'')] raw of
        Some m \<Rightarrow> Inr \<lparr>LivewireUpdatePayloadCallMethod.ID = ''u1'', Method = m, Params = Some []\<rparr>
      | None \<Rightarrow> Inl (GoError ''json: cannot unmarshal the document''))\<close>

definition demoUnmarshalSyncInput ::
  "string \<Rightarrow> int cerror + LivewireUpdatePayloadSyncInput" where
  \<open>demoUnmarshalSyncInput raw =
     (case map_of
        [(''{"id":"u2","name":"Note","value":"hi"}'', (''Note'', ''hi'')),
         (''{"id":"u2","name":"Title","value":"hi"}'', (''Title'', ''hi'')),
         (''{"id":"u2","name":"A","value":"hi"}'', (''A'', ''hi''))] raw of
        Some (n, v) \<Rightarrow> Inr \<lparr>LivewireUpdatePayloadSyncInput.ID = ''u2'', Name = n, Value = v\<rparr>
      | None \<Rightarrow> Inl (GoError ''json: cannot unmarshal the document''))\<close>

definition demoMarshalInitialData ::
  "LivewireFingerprint \<Rightarrow> LivewireServerMemo \<Rightarrow> LivewireEffectsRequest \<Rightarrow> int cerror + string" where
  \<open>demoMarshalInitialData fp memo effects =
     (if Listeners effects = None \<and> DataMeta memo = None \<and> Children memo = None
         \<and> Errors memo = None then
        Inr (''{"effects":{"listeners":null},"fingerprint":{"id":"'' @ LivewireFingerprint.ID fp
             @ ''","name":"'' @ LivewireFingerprint.Name fp
             @ ''","locale":"'' @ Locale fp
             @ ''","path":"'' @ Path fp
             @ ''","method":"'' @ LivewireFingerprint.Method fp
             @ ''","v":"'' @ InvalidationHash fp
             @ ''"},"serverMemo":{"htmlHash":"'' @ HTMLHash memo
             @ ''","data":'' @ Data memo
             @ '',"dataMeta":null,"children":null,"errors":null}}'')
      else Inl (GoError ''json: unsupported value''))\<close>

definition demoExecute :: "string \<Rightarrow> string \<Rightarrow> Request \<Rightarrow> int godata \<Rightarrow> int cerror + string" where
  "demoExecute name pattern req d =
     (case map_of
        [((''Counter.html'', counterData 1 2 []), ''<p>2</p>''),
         ((''Counter.html'', counterData 1 3 []), ''<p>3</p>''),
         ((''Counter.html'', counterData 1 0 []), ''<p>0</p>''),
         ((''Counter.html'', counterData 1 2 ''hi''), ''<p>2</p>''),
         ((''Stamp.html'', stampData 3), ''<p>3</p>''),
         ((''Stamp.html'', stampData 0), ''<p>0</p>'')] (name, d) of
        Some out \<Rightarrow> Inr out
      | None \<Rightarrow> Inl (GoError ''template: error calling a field of the data''))"

definition demoNewDocument :: "string \<Rightarrow> int cerror + HtmlNode list" where
  "demoNewDocument html =
     (case map_of
        [(''<p>2</p>'', ''2''), (''<p>3</p>'', ''3''), (''<p>0</p>'', ''0'')] html of
        Some inner \<Rightarrow> Inr [\<lparr>Tag = ''p'', Attr = [], Inner = inner\<rparr>]
      | None \<Rightarrow> Inr [])"

definition escapeAttr :: "string \<Rightarrow> string" where
  \<open>escapeAttr v =
     concat (map (\<lambda>c. if c = CHR 0x22 then ''&#34;'' else if c = CHR ''&'' then ''&amp;''
                       else if c = CHR ''<'' then ''&lt;'' else if c = CHR ''>'' then ''&gt;''
                       else [c]) v)\<close>

definition demoRender :: "HtmlNode \<Rightarrow> int cerror + string" where
  \<open>demoRender n =
     Inr (''<'' @ Tag n
          @ concat (map (\<lambda>(k, v). '' '' @ k @ ''="'' @ escapeAttr v @ ''"'') (Attr n))
          @ ''>'' @ Inner n @ ''</'' @ Tag n @ ''>'')\<close>

definition demoLibs :: "int Libs" where
  "demoLibs =
     \<lparr>Marshal = demoMarshal,
      Unmarshal = demoUnmarshal,
      UnmarshalMap = demoUnmarshalMap,
      UnmarshalCallMethod = demoUnmarshalCallMethod,
      UnmarshalSyncInput = demoUnmarshalSyncInput,
      MarshalInitialData = demoMarshalInitialData,
      ParseFS = (\<lambda>name pattern. None),
      Execute = demoExecute,
      NewRequest = (\<lambda>m p. Inr \<lparr>Request.Method = m, URL_Path = p, Rest = []\<rparr>),
      NewDocumentFromReader = demoNewDocument,
      Render = demoRender\<rparr>"

definition demoRequest :: Request where
  "demoRequest = \<lparr>Request.Method = ''GET'', URL_Path = ''/shop'', Rest = ''Accept: text/html''\<rparr>"

definition demoRnd :: "nat \<Rightarrow> char" where
  "demoRnd i = ''k3Xp9QzL2mVt7RwB5cYd'' ! (i mod 20)"

definition demoFingerprint :: "string \<Rightarrow> LivewireFingerprint" where
  "demoFingerprint name =
     \<lparr>LivewireFingerprint.ID = ''k3Xp9QzL2mVt7RwB5cYd'', Name = name, Locale = ''en'',
      Path = ''/shop'', Method = ''GET'', InvalidationHash = ''aaa''\<rparr>"

definition demoMessage :: "string \<Rightarrow> string \<Rightarrow> string \<Rightarrow> LivewireUpdate list \<Rightarrow> LivewireMessage" where
  "demoMessage name hash raw updates =
     \<lparr>Fingerprint = demoFingerprint name,
      ServerMemo = \<lparr>HTMLHash = hash, Data = raw, DataMeta = None, Children = None,
                     Errors = None\<rparr>,
      Updates = updates\<rparr>"

definition callMethod :: "string \<Rightarrow> LivewireUpdate" where
  \<open>callMethod m =
     \<lparr>Type = ''callMethod'', Payload = ''{"id":"u1","method":"'' @ m @ ''","params":[]}''\<rparr>\<close>

definition syncInput :: "string \<Rightarrow> string \<Rightarrow> LivewireUpdate" where
  \<open>syncInput n v =
     \<lparr>Type = ''syncInput'',
      Payload = ''{"id":"u2","name":"'' @ n @ ''","value":"'' @ v @ ''"}''\<rparr>\<close>

text \<open>
  The message a client sends back for the \<open>Counter\<close> it was given by the initial render
  (markup \<open><p>2</p>\<close>, whose token is \<open>d90be6d2\<close>, and data \<open>{"a":1,"b":2}\<close>), a response
  with a given list of dirty fields, and the markup of an initial render.
\<close>

definition counterMessage :: "LivewireUpdate list \<Rightarrow> LivewireMessage" where
  \<open>counterMessage updates = demoMessage ''Counter'' ''d90be6d2'' ''{"a":1,"b":2}'' updates\<close>

definition demoResponse :: "string list \<Rightarrow> string \<Rightarrow> string \<Rightarrow> string \<Rightarrow> LivewireMessageResponse" where
  "demoResponse dirty html hash raw =
     \<lparr>Effects = \<lparr>Dirty = Some dirty, HTML = html\<rparr>,
      ServerMemo = \<lparr>HTMLHash = hash, Data = raw, DataMeta = None, Children = None,
                     Errors = None\<rparr>\<rparr>"

definition demoPatch :: "string \<Rightarrow> string" where
  \<open>demoPatch shown =
     ''<p wire:id="k3Xp9QzL2mVt7RwB5cYd">'' @ shown @ ''</p>'' @ newline @ newline\<close>

definition demoInitialData :: "string \<Rightarrow> string \<Rightarrow> string \<Rightarrow> string" where
  \<open>demoInitialData name hash raw =
     ''{"effects":{"listeners":null},"fingerprint":{"id":"k3Xp9QzL2mVt7RwB5cYd","name":"''
     @ name @ ''","locale":"en","path":"/shop","method":"GET","v":"aaa"},''
     @ ''"serverMemo":{"htmlHash":"'' @ hash @ ''","data":'' @ raw
     @ '',"dataMeta":null,"children":null,"errors":null}}''\<close>

definition demoInitialHtml :: "string \<Rightarrow> string \<Rightarrow> string \<Rightarrow> string \<Rightarrow> string" where
  \<open>demoInitialHtml name shown hash raw =
     ''<p wire:id="k3Xp9QzL2mVt7RwB5cYd" wire:initial-data="''
     @ escapeAttr (demoInitialData name hash raw) @ ''">'' @ shown @ ''</p>'' @ newline
     @ ''<!-- Livewire Component wire-end:k3Xp9QzL2mVt7RwB5cYd -->'' @ newline\<close>

section \<open>The content hasher: properties\<close>

text \<open>
  One shift step of the register can be undone: the polynomial has its top bit set, so
  the top bit of the result tells whether the polynomial was added. Hence a byte step
  is injective in the register and in the byte, and so is the print in hexadecimal.
\<close>

lemma xor_cancel_right32: "(a::uint32) XOR c = b XOR c \<Longrightarrow> a = b"
proof -
  assume "a XOR c = b XOR c"
  then have "(a XOR c) XOR c = (b XOR c) XOR c" by simp
  then show "a = b" by (simp add: xor.assoc)
qed

lemma bit31_crcShift: "bit (crcShift c) 31 = bit c 0"
  by (auto simp add: crcShift_def IEEE_def bit_simps dest: bit_imp_le_length)

lemma crcShift_inj: "crcShift a = crcShift b \<Longrightarrow> a = b"
proof -
  assume eq: "crcShift a = crcShift b"
  have b0: "bit a 0 = bit b 0"
    using bit31_crcShift [of a] bit31_crcShift [of b] eq by simp
  have d: "drop_bit 1 a = drop_bit 1 b"
  proof (cases "bit a 0")
    case True
    with b0 eq have "drop_bit 1 a XOR IEEE = drop_bit 1 b XOR IEEE"
      by (simp add: crcShift_def)
    then show ?thesis by (rule xor_cancel_right32)
  next
    case False
    with b0 eq show ?thesis by (simp add: crcShift_def)
  qed
  show "a = b"
  proof (rule bit_eqI)
    fix n
    show "bit a n = bit b n"
    proof (cases n)
      case 0
      with b0 show ?thesis by simp
    next
      case (Suc m)
      have "bit (drop_bit 1 a) m = bit (drop_bit 1 b) m" using d by simp
      then show ?thesis unfolding Suc by (simp add: bit_drop_bit_eq)
    qed
  qed
qed

lemma crcShifts_inj: "crcShifts n a = crcShifts n b \<Longrightarrow> a = b"
proof (induction n arbitrary: a b)
  case 0
  then show ?case by simp
next
  case (Suc n)
  then have "crcShift a = crcShift b" by simp
  then show ?case by (rule crcShift_inj)
qed

lemma byteOf_inj: "byteOf x = byteOf y \<Longrightarrow> x = y"
proof -
  assume eq: "byteOf x = byteOf y"
  have lt: "(of_char c :: nat) < 2 ^ LENGTH(32)" for c
  proof -
    have "(of_char c :: nat) mod 256 = of_char c" by simp
    then have "(of_char c :: nat) < 256"
      by (metis mod_less_divisor zero_less_numeral)
    also have "(256::nat) < 2 ^ LENGTH(32)" by simp
    finally show ?thesis .
  qed
  have "unat (byteOf c) = of_char c" for c
    unfolding byteOf_def unat_of_nat using lt [of c] by (rule mod_less)
  with eq have "(of_char x :: nat) = of_char y" by metis
  then show "x = y" by simp
qed

lemma crcUpdateByte_inj_state: "crcUpdateByte a x = crcUpdateByte b x \<Longrightarrow> a = b"
proof -
  assume "crcUpdateByte a x = crcUpdateByte b x"
  then have "a XOR byteOf x = b XOR byteOf x"
    unfolding crcUpdateByte_def by (rule crcShifts_inj)
  then show "a = b" by (rule xor_cancel_right32)
qed

lemma crcUpdateByte_inj_byte: "crcUpdateByte c x = crcUpdateByte c y \<Longrightarrow> x = y"
proof -
  assume "crcUpdateByte c x = crcUpdateByte c y"
  then have "c XOR byteOf x = c XOR byteOf y"
    unfolding crcUpdateByte_def by (rule crcShifts_inj)
  then have "byteOf x XOR c = byteOf y XOR c" by (simp add: xor.commute)
  then have "byteOf x = byteOf y" by (rule xor_cancel_right32)
  then show "x = y" by (rule byteOf_inj)
qed

lemma foldl_crcUpdateByte_inj:
  "foldl crcUpdateByte a s = foldl crcUpdateByte b s \<Longrightarrow> a = b"
proof (induction s arbitrary: a b)
  case Nil
  then show ?case by simp
next
  case (Cons x s)
  then have "crcUpdateByte a x = crcUpdateByte b x" by simp
  then show ?case by (rule crcUpdateByte_inj_state)
qed

lemma ChecksumIEEE_one_byte:
  assumes "ChecksumIEEE (p @ x # s) = ChecksumIEEE (p @ y # s)"
  shows "x = y"
proof -
  let ?c = "foldl crcUpdateByte (NOT 0) p"
  from assms have "foldl crcUpdateByte (crcUpdateByte ?c x) s = foldl crcUpdateByte (crcUpdateByte ?c y) s"
    unfolding ChecksumIEEE_def by simp
  then have "crcUpdateByte ?c x = crcUpdateByte ?c y"
    by (rule foldl_crcUpdateByte_inj)
  then show ?thesis by (rule crcUpdateByte_inj_byte)
qed

lemma length_hexPad: "length (hexPad k n) = k"
  by (induction k arbitrary: n) simp_all

lemma hexDigit_inj: "hexDigit a = hexDigit b \<Longrightarrow> a mod 16 = b mod 16"
proof -
  assume eq: "hexDigit a = hexDigit b"
  have d: "distinct ''0123456789abcdef''" by simp
  have la: "nat (a mod 16) < length ''0123456789abcdef''"
   and lb: "nat (b mod 16) < length ''0123456789abcdef''" by simp_all
  from eq have "nat (a mod 16) = nat (b mod 16)"
    unfolding hexDigit_def using d la lb nth_eq_iff_index_eq by blast
  then show ?thesis by simp
qed

lemma hexPad_inj:
  "hexPad k n = hexPad k m \<Longrightarrow> 0 \<le> n \<Longrightarrow> n < 16 ^ k \<Longrightarrow> 0 \<le> m \<Longrightarrow> m < 16 ^ k \<Longrightarrow> n = m"
proof (induction k arbitrary: n m)
  case 0
  then show ?case by simp
next
  case (Suc k)
  from Suc.prems(1) have h: "hexPad k (n div 16) = hexPad k (m div 16)"
    and d: "hexDigit n = hexDigit m"
    by (simp_all add: length_hexPad)
  have bound: "x div 16 < K \<and> 0 \<le> x div 16" if "0 \<le> x" "x < 16 * K" for x K :: int
    using that by presburger
  have "n div 16 < 16 ^ k" "m div 16 < 16 ^ k" "0 \<le> n div 16" "0 \<le> m div 16"
    using Suc.prems bound [of n "16 ^ k"] bound [of m "16 ^ k"] by simp_all
  then have "n div 16 = m div 16"
    using Suc.IH [OF h] by simp
  moreover have "n mod 16 = m mod 16" using d by (rule hexDigit_inj)
  ultimately show ?case by (metis mult_div_mod_eq)
qed

lemma sprintf_08x_inj: "sprintf_08x a = sprintf_08x b \<Longrightarrow> a = b"
proof -
  assume eq: "sprintf_08x a = sprintf_08x b"
  have "uint a < 16 ^ 8" "uint b < 16 ^ 8"
    using uint_bounded [of a] uint_bounded [of b] by simp_all
  moreover have "0 \<le> uint a" "0 \<le> uint b" by simp_all
  moreover have "hexPad 8 (uint a) = hexPad 8 (uint b)"
    using eq by (simp only: sprintf_08x_def)
  ultimately have "uint a = uint b"
    by (intro hexPad_inj [of 8])
  then show "a = b" by (rule word_uint_eqI)
qed

lemma hexDigit_in: "hexDigit d \<in> set ''0123456789abcdef''"
  unfolding hexDigit_def by (rule nth_mem) simp

lemma set_hexPad: "set (hexPad k n) \<subseteq> set ''0123456789abcdef''"
proof (induction k arbitrary: n)
  case 0
  then show ?case by simp
next
  case (Suc k)
  have "set (hexPad (Suc k) n) = set (hexPad k (n div 16)) \<union> {hexDigit n}" by simp
  then show ?case using Suc [of "n div 16"] hexDigit_in [of n] by blast
qed

lemma htmlHash_one_byte: "htmlHash (p @ x # s) = htmlHash (p @ y # s) \<longleftrightarrow> x = y"
proof
  assume "htmlHash (p @ x # s) = htmlHash (p @ y # s)"
  then have "ChecksumIEEE (p @ x # s) = ChecksumIEEE (p @ y # s)"
    unfolding htmlHash_def by (rule sprintf_08x_inj)
  then show "x = y" by (rule ChecksumIEEE_one_byte)
next
  assume "x = y"
  then show "htmlHash (p @ x # s) = htmlHash (p @ y # s)" by simp
qed

lemma htmlHash_p2: "htmlHash ''<p>2</p>'' = ''d90be6d2''"
  by code_simp

lemma htmlHash_p3: "htmlHash ''<p>3</p>'' = ''e46bcf62''"
  by code_simp

lemma htmlHash_p0: "htmlHash ''<p>0</p>'' = ''a3cbb5b2''"
  by code_simp

text \<open>
  C7, as amended. The token is a function of the markup's bytes and has exactly eight
  characters, all of them lower-case hexadecimal digits. Two fragments that differ in
  exactly one byte (the same bytes before it and the same bytes after it) have
  different tokens, and equal ones where that byte is equal too. Fragments that differ
  in more than one place may share a token.
\<close>

theorem htmlHash_token:
  "length (htmlHash h) = 8 \<and>
   set (htmlHash h) \<subseteq> set ''0123456789abcdef'' \<and>
   (htmlHash (p @ x # s) = htmlHash (p @ y # s) \<longleftrightarrow> x = y)"
proof (intro conjI)
  show "length (htmlHash h) = 8"
    unfolding htmlHash_def sprintf_08x_def by (rule length_hexPad)
  show "set (htmlHash h) \<subseteq> set ''0123456789abcdef''"
    unfolding htmlHash_def sprintf_08x_def by (rule set_hexPad)
  show "htmlHash (p @ x # s) = htmlHash (p @ y # s) \<longleftrightarrow> x = y"
    by (rule htmlHash_one_byte)
qed

theorem htmlHash_token_witness:
  "length (htmlHash ''<p>2</p>'') = 8 \<and>
   set (htmlHash ''<p>2</p>'') \<subseteq> set ''0123456789abcdef'' \<and>
   htmlHash ''<p>2</p>'' \<noteq> htmlHash ''<p>3</p>''"
  using htmlHash_token [of "''<p>2</p>''" "''<p>''" "CHR ''2''" "''</p>''" "CHR ''3''"]
  by simp

text \<open>
  C7, as stated, fails: these two fragments differ in every byte and have the same
  token, \<open>4ddb0c25\<close>.
\<close>

theorem htmlHash_collision:
  "''plumless'' \<noteq> ''buckeroo'' \<and> htmlHash ''plumless'' = htmlHash ''buckeroo''"
  by code_simp

section \<open>Maps, iteration orders and the dirty loop: properties\<close>

lemma clearjunk_iff: "(k, v) \<in> set (AList.clearjunk m) \<longleftrightarrow> map_of m k = Some v"
  by (metis graph_map_of in_graphD in_graphI)

lemma pickOrder_set_distinct:
  "set (pickOrder ns xs) = set xs \<and> (distinct xs \<longrightarrow> distinct (pickOrder ns xs))"
proof (induction ns arbitrary: xs)
  case Nil
  show ?case by simp
next
  case (Cons n ns)
  show ?case
  proof (cases "xs = []")
    case True
    then show ?thesis by simp
  next
    case False
    let ?i = "n mod length xs"
    let ?r = "take ?i xs @ drop (Suc ?i) xs"
    have i: "?i < length xs" using False by simp
    have split: "xs = take ?i xs @ xs ! ?i # drop (Suc ?i) xs"
      using id_take_nth_drop [OF i] .
    have s: "set xs = insert (xs ! ?i) (set ?r)"
      by (subst split) simp
    have d: "distinct xs \<longrightarrow> distinct ?r \<and> xs ! ?i \<notin> set ?r"
      by (subst (1) split) (simp only: distinct_append distinct.simps set_append set_simps, blast)
    have p: "pickOrder (n # ns) xs = xs ! ?i # pickOrder ns ?r"
      using False by simp
    show ?thesis
      using Cons.IH [of ?r] s d unfolding p by simp
  qed
qed

lemma goRange_iff: "(k, v) \<in> set (goRange order m) \<longleftrightarrow> map_of m k = Some v"
  by (simp add: goRange_def pickOrder_set_distinct clearjunk_iff)

lemma distinct_goRange: "distinct (map fst (goRange order m))"
proof -
  have "distinct (map fst (AList.clearjunk m))" by simp
  then have d: "distinct (AList.clearjunk m)" by (simp add: distinct_map)
  have inj: "inj_on fst (set (AList.clearjunk m))"
    using distinct_clearjunk [of m] by (simp add: distinct_map)
  have "distinct (pickOrder order (AList.clearjunk m))"
    using d pickOrder_set_distinct [of order "AList.clearjunk m"] by simp
  moreover have "inj_on fst (set (pickOrder order (AList.clearjunk m)))"
    using inj pickOrder_set_distinct [of order "AList.clearjunk m"] by simp
  ultimately show ?thesis by (simp add: goRange_def distinct_map)
qed

lemma dirtyLoop_filter:
  "dirtyLoop es dataPost dirty =
     dirty @ map fst (filter (\<lambda>(k, v). case map_of dataPost k of None \<Rightarrow> True
                                       | Some vPost \<Rightarrow> \<not> DeepEqual v vPost) es)"
  by (induction es dataPost dirty rule: dirtyLoop.induct) (simp_all split: option.splits)

lemma distinct_dirtyLoop: "distinct (dirtyLoop (goRange order dataPre) dataPost [])"
  unfolding dirtyLoop_filter
  using distinct_goRange [of order dataPre] by (simp add: distinct_map_filter)

lemma set_dirtyLoop:
  "k \<in> set (dirtyLoop (goRange order dataPre) dataPost []) \<longleftrightarrow>
     (\<exists>v. map_of dataPre k = Some v \<and>
          (case map_of dataPost k of None \<Rightarrow> True | Some vPost \<Rightarrow> \<not> DeepEqual v vPost))"
proof -
  have "k \<in> set (dirtyLoop (goRange order dataPre) dataPost []) \<longleftrightarrow>
      (\<exists>v. (k, v) \<in> set (goRange order dataPre) \<and>
          (case map_of dataPost k of None \<Rightarrow> True | Some vPost \<Rightarrow> \<not> DeepEqual v vPost))"
    unfolding dirtyLoop_filter by (auto simp: image_iff)
  then show ?thesis by (simp only: goRange_iff)
qed

lemma distinct_singleton: "distinct xs \<Longrightarrow> set xs = {x} \<Longrightarrow> xs = [x]"
proof (cases xs)
  case Nil
  assume "set xs = {x}" with Nil show ?thesis by simp
next
  case (Cons y ys)
  assume d: "distinct xs" and s: "set xs = {x}"
  from s Cons have y: "y = x" by auto
  from d s Cons y have "set ys \<subseteq> {x}" "x \<notin> set ys" by auto
  then have "ys = []" by (cases ys) auto
  with Cons y show ?thesis by simp
qed

lemma dirty_example_changed:
  "dirtyLoop (goRange order [(''a'', JNumber 1), (''b'', JNumber 2)])
     [(''a'', JNumber 1), (''b'', JNumber 3)] [] = [''b'']"
proof (rule distinct_singleton [OF distinct_dirtyLoop])
  show "set (dirtyLoop (goRange order [(''a'', JNumber 1), (''b'', JNumber 2)])
     [(''a'', JNumber 1), (''b'', JNumber 3)] []) = {''b''}"
    by (auto simp: set_dirtyLoop split: if_splits)
qed

lemma dirty_example_removed:
  "dirtyLoop (goRange order [(''a'', JNumber 1), (''b'', JNumber 2)])
     [(''a'', JNumber 1)] [] = [''b'']"
proof (rule distinct_singleton [OF distinct_dirtyLoop])
  show "set (dirtyLoop (goRange order [(''a'', JNumber 1), (''b'', JNumber 2)])
     [(''a'', JNumber 1)] []) = {''b''}"
    by (auto simp: set_dirtyLoop split: if_splits)
qed

section \<open>HTML mutator, reflection and initial render: properties\<close>

lemma map_of_goRange: "map_of (goRange order m) = map_of m"
proof
  fix k
  show "map_of (goRange order m) k = map_of m k"
  proof (cases "map_of m k")
    case None
    then have "\<And>v. (k, v) \<notin> set (goRange order m)" by (simp add: goRange_iff)
    then have "map_of (goRange order m) k = None"
      by (metis map_of_SomeD not_None_eq)
    with None show ?thesis by simp
  next
    case (Some v)
    then have "(k, v) \<in> set (goRange order m)" by (simp add: goRange_iff)
    then have "map_of (goRange order m) k = Some v"
      using distinct_goRange [of order m] by simp
    with Some show ?thesis by simp
  qed
qed

lemma map_of_setAttribute:
  "map_of (setAttribute k v as) k' = (if k' = k then Some v else map_of as k')"
  by (induction as) auto

lemma map_of_setAttributes:
  "distinct (map fst es) \<Longrightarrow>
   map_of (foldl (\<lambda>as (k, v). setAttribute k v as) as es) k' =
     (case map_of es k' of Some v \<Rightarrow> Some v | None \<Rightarrow> map_of as k')"
proof (induction es arbitrary: as)
  case Nil
  show ?case by simp
next
  case (Cons e es)
  obtain k v where e: "e = (k, v)" by (cases e)
  from Cons.prems e have d: "distinct (map fst es)" and k: "k \<notin> fst ` set es" by auto
  from k have none: "map_of es k = None" by (simp add: map_of_eq_None_iff)
  show ?case
    using Cons.IH [OF d, of "setAttribute k v as"] none
    by (simp add: e map_of_setAttribute split: option.splits)
qed

lemma foldl_SetAttr:
  "foldl (\<lambda>sel (k, v). SetAttr k v sel) sel es =
     map (\<lambda>n. n\<lparr>Attr := foldl (\<lambda>as (k, v). setAttribute k v as) (Attr n) es\<rparr>) sel"
proof (induction es arbitrary: sel)
  case Nil
  show ?case by simp
next
  case (Cons e es)
  obtain k v where e: "e = (k, v)" by (cases e)
  have "foldl (\<lambda>sel (k, v). SetAttr k v sel) sel (e # es) =
          foldl (\<lambda>sel (k, v). SetAttr k v sel) (SetAttr k v sel) es"
    by (simp add: e)
  also have "\<dots> = map (\<lambda>n. n\<lparr>Attr := foldl (\<lambda>as (k, v). setAttribute k v as) (Attr n) es\<rparr>)
                      (SetAttr k v sel)"
    by (rule Cons.IH)
  also have "\<dots> = map (\<lambda>n. n\<lparr>Attr := foldl (\<lambda>as (k, v). setAttribute k v as) (Attr n) (e # es)\<rparr>) sel"
    by (simp add: SetAttr_def e o_def)
  finally show ?case .
qed

lemma FieldByName_Set_None:
  "FieldByName n fs = None \<Longrightarrow> \<exists>p. Set_FieldByName n v fs = Inl p"
  by (induction fs) (auto simp: FieldByName_def split: if_splits)

lemma FieldByName_Set_refused:
  "FieldByName n fs = Some f \<Longrightarrow> \<not> (exported f \<and> fieldType f \<noteq> TOther) \<Longrightarrow>
     \<exists>p. Set_FieldByName n v fs = Inl p"
  by (induction fs) (auto simp: FieldByName_def split: if_splits)

lemma FieldByName_Set_done:
  "FieldByName n fs = Some f \<Longrightarrow> exported f \<Longrightarrow> fieldType f \<noteq> TOther \<Longrightarrow>
     \<exists>fs'. Set_FieldByName n v fs = Inr fs' \<and>
           FieldByName n fs' = Some (f\<lparr>fieldValue := GString v\<rparr>) \<and>
           (\<forall>n'. n' \<noteq> n \<longrightarrow> FieldByName n' fs' = FieldByName n' fs)"
  by (induction fs) (auto simp: FieldByName_def split: if_splits)

lemma syncField_settable:
  assumes "settable n d"
  shows "\<exists>fs fs' f. d = Struct fs \<and> syncField n v d = Ok (Struct fs') \<and>
           FieldByName n fs = Some f \<and>
           FieldByName n fs' = Some (f\<lparr>fieldValue := GString v\<rparr>) \<and>
           (\<forall>n'. n' \<noteq> n \<longrightarrow> FieldByName n' fs' = FieldByName n' fs)"
proof -
  from assms obtain fs f where d: "d = Struct fs" and f: "FieldByName n fs = Some f"
    and e: "exported f" and t: "fieldType f \<noteq> TOther"
    by (auto simp: settable_def split: godata.splits option.splits)
  from FieldByName_Set_done [OF f e t, of v] obtain fs' where
    "Set_FieldByName n v fs = Inr fs'"
    "FieldByName n fs' = Some (f\<lparr>fieldValue := GString v\<rparr>)"
    "\<forall>n'. n' \<noteq> n \<longrightarrow> FieldByName n' fs' = FieldByName n' fs"
    by blast
  with d f show ?thesis by (simp add: syncField_def)
qed

lemma syncField_not_settable:
  assumes "\<not> settable n d"
  shows "\<exists>p. syncField n v d = Panic p"
proof (cases d)
  case (NonStruct x)
  then show ?thesis by (simp add: syncField_def)
next
  case (Struct fs)
  show ?thesis
  proof (cases "FieldByName n fs")
    case None
    from FieldByName_Set_None [OF None, of v] Struct show ?thesis
      by (auto simp: syncField_def)
  next
    case (Some f)
    with assms Struct have "\<not> (exported f \<and> fieldType f \<noteq> TOther)"
      by (simp add: settable_def)
    from FieldByName_Set_refused [OF Some this, of v] Struct show ?thesis
      by (auto simp: syncField_def)
  qed
qed

lemma livewireInitial_Ok:
  assumes "livewireInitial libs r rnd order req name = Ok html"
  obtains c data out dataJ initialData where
    "livewireComponentByName r name = Some c"
    "InitialData c = Some [data]"
    "renderPartialFromDir libs req ''livewire'' name data = Inr out"
    "Marshal libs data = Inr dataJ"
    "MarshalInitialData libs
       \<lparr>LivewireFingerprint.ID = GenerateRandomString 20 rnd, Name = name, Locale = ''en'',
        Path = URL_Path req, Method = Request.Method req, InvalidationHash = ''aaa''\<rparr>
       \<lparr>HTMLHash = htmlHash out, Data = dataJ, DataMeta = None, Children = None, Errors = None\<rparr>
       \<lparr>Listeners = None\<rparr> = Inr initialData"
    "updateHTML libs order out
       [(''wire:id'', GenerateRandomString 20 rnd), (''wire:initial-data'', initialData)]
       (''<!-- Livewire Component wire-end:'' @ GenerateRandomString 20 rnd @ '' -->'') = Inr html"
  using assms unfolding livewireInitial_def Let_def
  by (auto split: option.splits sum.splits list.splits)

lemma length_GenerateRandomString: "length (GenerateRandomString n rnd) = n"
  by (simp add: GenerateRandomString_def)

section \<open>The update: properties\<close>

lemma livewireUpdate_Ok:
  assumes "livewireUpdate libs r order message = Ok resp"
  obtains c typeName zero dataVal0 dataVal initialReq out dataJ where
    "livewireComponentByName r (LivewireFingerprint.Name (Fingerprint message)) = Some c"
    "InitialDataElem c = Some (typeName, zero)"
    "Unmarshal libs (Data (LivewireMessage.ServerMemo message)) zero = Inr dataVal0"
    "applyUpdates libs c (LivewireFingerprint.Name (Fingerprint message)) dataVal0
       (Updates message) = Ok dataVal"
    "NewRequest libs (LivewireFingerprint.Method (Fingerprint message))
       (Path (Fingerprint message)) = Inr initialReq"
    "renderPartialFromDir libs initialReq ''livewire''
       (LivewireFingerprint.Name (Fingerprint message)) dataVal = Inr out"
    "Marshal libs dataVal = Inr dataJ"
    "LivewireMessageResponse.ServerMemo resp =
       \<lparr>HTMLHash = htmlHash out, Data = dataJ, DataMeta = None, Children = None, Errors = None\<rparr>"
    "HTMLHash (LivewireMessage.ServerMemo message) = htmlHash out \<longrightarrow>
       Effects resp = \<lparr>Dirty = Some [], HTML = []\<rparr>"
    "HTMLHash (LivewireMessage.ServerMemo message) \<noteq> htmlHash out \<longrightarrow>
       (\<exists>dataPre dataPost html.
          UnmarshalMap libs (Data (LivewireMessage.ServerMemo message)) = Inr dataPre \<and>
          UnmarshalMap libs dataJ = Inr dataPost \<and>
          updateHTML libs [] out [(''wire:id'', LivewireFingerprint.ID (Fingerprint message))] [] = Inr html \<and>
          Effects resp = \<lparr>Dirty = Some (dirtyLoop (goRange order dataPre) dataPost []), HTML = html\<rparr>)"
  using assms unfolding livewireUpdate_def Let_def
  by (auto split: option.splits sum.splits outcome.splits prod.splits if_splits)

lemma applyUpdates_append:
  "applyUpdates libs c n d (us @ vs) =
     (case applyUpdates libs c n d us of
        Ok d' \<Rightarrow> applyUpdates libs c n d' vs
      | Err e \<Rightarrow> Err e
      | Panic p \<Rightarrow> Panic p)"
  by (induction us arbitrary: d) (simp_all split: outcome.splits)

lemma applyUpdates_at:
  assumes "applyUpdates libs c n d0 us = Ok d"
  shows "applyUpdates libs c n d0 (us @ u # vs) =
     (case applyUpdate libs c n d u of
        Ok d' \<Rightarrow> applyUpdates libs c n d' vs
      | Err e \<Rightarrow> Err e
      | Panic p \<Rightarrow> Panic p)"
  using assms by (simp add: applyUpdates_append)

lemma applyUpdates_Ok_all:
  assumes "applyUpdates libs c n d0 us = Ok d" and "u \<in> set us"
  shows "\<exists>d1 d2. applyUpdate libs c n d1 u = Ok d2"
  using assms
proof (induction us arbitrary: d0)
  case Nil
  then show ?case by simp
next
  case (Cons a us)
  then show ?case
    by (cases "applyUpdate libs c n d0 a") (auto split: outcome.splits)
qed

lemma livewireUpdate_loop_Err:
  assumes "livewireComponentByName r (LivewireFingerprint.Name (Fingerprint message)) = Some c"
    and "InitialDataElem c = Some (typeName, zero)"
    and "Unmarshal libs (Data (LivewireMessage.ServerMemo message)) zero = Inr dataVal0"
    and "applyUpdates libs c (LivewireFingerprint.Name (Fingerprint message)) dataVal0
           (Updates message) = Err e"
  shows "livewireUpdate libs r order message = Err e"
  using assms unfolding livewireUpdate_def Let_def by simp

lemma livewireUpdate_loop_Panic:
  assumes "livewireComponentByName r (LivewireFingerprint.Name (Fingerprint message)) = Some c"
    and "InitialDataElem c = Some (typeName, zero)"
    and "Unmarshal libs (Data (LivewireMessage.ServerMemo message)) zero = Inr dataVal0"
    and "applyUpdates libs c (LivewireFingerprint.Name (Fingerprint message)) dataVal0
           (Updates message) = Panic p"
  shows "livewireUpdate libs r order message = Panic p"
  using assms unfolding livewireUpdate_def Let_def by simp

lemma applyUpdate_unknown:
  assumes "Type u \<noteq> ''callMethod''" and "Type u \<noteq> ''syncInput''"
  shows "applyUpdate libs c n d u = Err (CError None ''unknown update type'' [(''type'', TStr (Type u))])"
  using assms unfolding applyUpdate_def by simp

lemma Set_FieldByName_idem:
  "Set_FieldByName n v fs = Inr fs' \<Longrightarrow> Set_FieldByName n v fs' = Inr fs'"
proof (induction fs arbitrary: fs')
  case Nil
  then show ?case by simp
next
  case (Cons f fs)
  show ?case
  proof (cases "fieldName f = n")
    case True
    with Cons.prems show ?thesis by (auto split: if_splits)
  next
    case False
    with Cons.prems obtain gs where gs: "Set_FieldByName n v fs = Inr gs" and fs': "fs' = f # gs"
      by (auto split: sum.splits)
    from Cons.IH [OF gs] False fs' show ?thesis by simp
  qed
qed

lemma syncField_idem: "syncField n v d = Ok d' \<Longrightarrow> syncField n v d' = Ok d'"
  unfolding syncField_def
  by (auto split: godata.splits sum.splits dest: Set_FieldByName_idem)

lemma applyUpdate_syncInput_idem:
  assumes "Type u = ''syncInput''" and "applyUpdate libs c n d u = Ok d'"
  shows "applyUpdate libs c n d' u = Ok d'"
  using assms unfolding applyUpdate_def
  by (auto split: sum.splits dest: syncField_idem)

lemma applyUpdates_syncInput_twice:
  assumes "Type u = ''syncInput''"
  shows "applyUpdates libs c n d (u # u # vs) = applyUpdates libs c n d (u # vs)"
proof (cases "applyUpdate libs c n d u")
  case (Ok d')
  with assms have "applyUpdate libs c n d' u = Ok d'" by (rule applyUpdate_syncInput_idem)
  with Ok show ?thesis by simp
next
  case (Err e)
  then show ?thesis by simp
next
  case (Panic p)
  then show ?thesis by simp
qed

lemma applyUpdates_syncInput_twice_mid:
  assumes "Type u = ''syncInput''"
  shows "applyUpdates libs c n d (us @ [u, u] @ vs) = applyUpdates libs c n d (us @ [u] @ vs)"
proof (cases "applyUpdates libs c n d us")
  case (Ok d')
  have "applyUpdates libs c n d' (u # u # vs) = applyUpdates libs c n d' (u # vs)"
    using assms by (rule applyUpdates_syncInput_twice)
  then have "applyUpdates libs c n d' ([u, u] @ vs) = applyUpdates libs c n d' ([u] @ vs)"
    by simp
  with Ok show ?thesis by (simp only: applyUpdates_append [of _ _ _ _ us] outcome.case)
next
  case (Err e)
  then show ?thesis by (simp only: applyUpdates_append [of _ _ _ _ us] outcome.case)
next
  case (Panic p)
  then show ?thesis by (simp only: applyUpdates_append [of _ _ _ _ us] outcome.case)
qed

section \<open>Runs of the worked instance\<close>

lemmas demo_defs =
  demoLibs_def demoRenderer_def NewHTMLRenderer_def Counter_def Stamp_def counterData_def
  counterFields_def
  stampData_def demoField_def counterBump_def counterClear_def counterFail_def counterDocs_def
  demoMarshal_def demoUnmarshal_def demoUnmarshalMap_def demoUnmarshalCallMethod_def
  demoUnmarshalSyncInput_def demoMarshalInitialData_def demoExecute_def demoNewDocument_def
  escapeAttr_def demoRender_def demoRequest_def demoRnd_def demoFingerprint_def demoMessage_def
  callMethod_def syncInput_def counterMessage_def demoResponse_def demoPatch_def
  demoInitialData_def demoInitialHtml_def

lemmas run_defs =
  livewireUpdate_def livewireInitial_def applyUpdate_def syncField_def updateHTML_def
  renderPartialFromDir_def renderPartialFromDirWithFuncs_def OuterHtml_def SetAttr_def
  Find_first_child_def goRange_def newline_def GenerateRandomString_def Let_def

lemma demo_initial_Counter:
  \<open>livewireInitial demoLibs demoRenderer demoRnd [] demoRequest ''Counter'' =
     Ok (demoInitialHtml ''Counter'' ''2'' ''d90be6d2'' ''{"a":1,"b":2}'')\<close>
  by (simp add: run_defs demo_defs htmlHash_p2 upt_rec)

lemma demo_initial_Stamp:
  \<open>livewireInitial demoLibs demoRenderer demoRnd [] demoRequest ''Stamp'' =
     Ok (demoInitialHtml ''Stamp'' ''3'' ''e46bcf62'' ''{}'')\<close>
  by (simp add: run_defs demo_defs htmlHash_p3 upt_rec)

lemma demo_bump:
  \<open>livewireUpdate demoLibs demoRenderer [] (counterMessage [callMethod ''Bump'']) =
     Ok (demoResponse [''b''] (demoPatch ''3'') ''e46bcf62'' ''{"a":1,"b":3}'')\<close>
  by (simp add: run_defs demo_defs htmlHash_p3)

lemma demo_clear:
  \<open>livewireUpdate demoLibs demoRenderer [1] (counterMessage [callMethod ''Clear'']) =
     Ok (demoResponse [''b''] (demoPatch ''0'') ''a3cbb5b2'' ''{"a":1}'')\<close>
  by (simp add: run_defs demo_defs htmlHash_p0)

lemma demo_echo:
  \<open>livewireUpdate demoLibs demoRenderer [] (counterMessage []) =
     Ok (demoResponse [] [] ''d90be6d2'' ''{"a":1,"b":2}'')\<close>
  by (simp add: run_defs demo_defs htmlHash_p2)

lemma demo_echo_Stamp:
  \<open>livewireUpdate demoLibs demoRenderer [] (demoMessage ''Stamp'' ''e46bcf62'' ''{}'' []) =
     Ok (demoResponse [] (demoPatch ''0'') ''a3cbb5b2'' ''{}'')\<close>
  by (simp add: run_defs demo_defs htmlHash_p0)

lemma demo_fail:
  \<open>livewireUpdate demoLibs demoRenderer []
     (counterMessage [callMethod ''Bump'', callMethod ''Fail'', callMethod ''Clear'']) =
     Err (CError (Some (GoError ''out of stock'')) ''failed to call method on component''
            [(''component'', TStr ''Counter''),
             (''payload'', TCall \<lparr>LivewireUpdatePayloadCallMethod.ID = ''u1'', Method = ''Fail'',
                                   Params = Some []\<rparr>)])\<close>
  by (simp add: run_defs demo_defs)

lemma demo_bogus:
  \<open>livewireUpdate demoLibs demoRenderer []
     (counterMessage [callMethod ''Bump'', \<lparr>Type = ''bogus'', Payload = ''{}''\<rparr>]) =
     Err (CError None ''unknown update type'' [(''type'', TStr ''bogus'')])\<close>
  by (simp add: run_defs demo_defs)

lemma demo_sync_Note:
  \<open>applyUpdate demoLibs Counter ''Counter'' (counterData 1 2 []) (syncInput ''Note'' ''hi'') =
     Ok (counterData 1 2 ''hi'')\<close>
  by (simp add: run_defs demo_defs)

lemma demo_sync_Title:
  \<open>livewireUpdate demoLibs demoRenderer [] (counterMessage [syncInput ''Title'' ''hi'']) =
     Panic ''reflect: call of reflect.Value.Set on zero Value''\<close>
  by (simp add: run_defs demo_defs)

lemma demo_sync_A:
  \<open>livewireUpdate demoLibs demoRenderer [] (counterMessage [syncInput ''A'' ''hi'']) =
     Panic ''reflect.Set: value of type string is not assignable to the type of the field''\<close>
  by (simp add: run_defs demo_defs)

section \<open>The component update protocol: what holds\<close>

text \<open>
  C1. When the token of the new markup differs from the one the message carries, the
  list of dirty fields is the asymmetric shallow diff of the two data documents: a name
  is in it exactly when the pre-update document has the field and the post-update
  document lacks it or holds a value that \<open>DeepEqual\<close> tells apart; a field that only
  the post-update document has is never in it; and no name is listed twice. This holds
  for every order in which the run walks the pre-update map. In particular
  \<open>{a:1,b:2}\<close> against \<open>{a:1,b:3}\<close>, and against \<open>{a:1}\<close>, gives \<open>["b"]\<close>.
\<close>

theorem dirty_asymmetric_diff:
  assumes "livewireUpdate libs r order message = Ok resp"
    and "HTMLHash (LivewireMessageResponse.ServerMemo resp) \<noteq>
           HTMLHash (LivewireMessage.ServerMemo message)"
  shows "(\<exists>dataPre dataPost dirty.
            UnmarshalMap libs (Data (LivewireMessage.ServerMemo message)) = Inr dataPre \<and>
            UnmarshalMap libs (Data (LivewireMessageResponse.ServerMemo resp)) = Inr dataPost \<and>
            Dirty (Effects resp) = Some dirty \<and> distinct dirty \<and>
            (\<forall>k. k \<in> set dirty \<longleftrightarrow>
                 (\<exists>v. map_of dataPre k = Some v \<and>
                      (case map_of dataPost k of
                         None \<Rightarrow> True
                       | Some vPost \<Rightarrow> \<not> DeepEqual v vPost))) \<and>
            (\<forall>k. map_of dataPre k = None \<longrightarrow> k \<notin> set dirty)) \<and>
         dirtyLoop (goRange order' [(''a'', JNumber 1), (''b'', JNumber 2)])
           [(''a'', JNumber 1), (''b'', JNumber 3)] [] = [''b''] \<and>
         dirtyLoop (goRange order' [(''a'', JNumber 1), (''b'', JNumber 2)])
           [(''a'', JNumber 1)] [] = [''b'']"
proof (intro conjI)
  from assms(1) obtain out dataJ where
    memo: "LivewireMessageResponse.ServerMemo resp =
       \<lparr>HTMLHash = htmlHash out, Data = dataJ, DataMeta = None, Children = None, Errors = None\<rparr>"
    and changed: "HTMLHash (LivewireMessage.ServerMemo message) \<noteq> htmlHash out \<longrightarrow>
       (\<exists>dataPre dataPost html.
          UnmarshalMap libs (Data (LivewireMessage.ServerMemo message)) = Inr dataPre \<and>
          UnmarshalMap libs dataJ = Inr dataPost \<and>
          updateHTML libs [] out [(''wire:id'', LivewireFingerprint.ID (Fingerprint message))] [] = Inr html \<and>
          Effects resp = \<lparr>Dirty = Some (dirtyLoop (goRange order dataPre) dataPost []), HTML = html\<rparr>)"
    by (rule livewireUpdate_Ok)
  from assms(2) memo have "HTMLHash (LivewireMessage.ServerMemo message) \<noteq> htmlHash out"
    by auto
  with changed obtain dataPre dataPost html where
    pre: "UnmarshalMap libs (Data (LivewireMessage.ServerMemo message)) = Inr dataPre"
    and post: "UnmarshalMap libs dataJ = Inr dataPost"
    and eff: "Effects resp = \<lparr>Dirty = Some (dirtyLoop (goRange order dataPre) dataPost []), HTML = html\<rparr>"
    by blast
  let ?dirty = "dirtyLoop (goRange order dataPre) dataPost []"
  have 1: "UnmarshalMap libs (Data (LivewireMessageResponse.ServerMemo resp)) = Inr dataPost"
    using post memo by simp
  have 2: "Dirty (Effects resp) = Some ?dirty" using eff by simp
  have 3: "distinct ?dirty" by (rule distinct_dirtyLoop)
  have 4: "\<forall>k. k \<in> set ?dirty \<longleftrightarrow>
                 (\<exists>v. map_of dataPre k = Some v \<and>
                      (case map_of dataPost k of
                         None \<Rightarrow> True
                       | Some vPost \<Rightarrow> \<not> DeepEqual v vPost))"
    using set_dirtyLoop [of _ order dataPre dataPost] by blast
  have 5: "\<forall>k. map_of dataPre k = None \<longrightarrow> k \<notin> set ?dirty"
    using set_dirtyLoop [of _ order dataPre dataPost] by simp
  show "\<exists>dataPre dataPost dirty.
            UnmarshalMap libs (Data (LivewireMessage.ServerMemo message)) = Inr dataPre \<and>
            UnmarshalMap libs (Data (LivewireMessageResponse.ServerMemo resp)) = Inr dataPost \<and>
            Dirty (Effects resp) = Some dirty \<and> distinct dirty \<and>
            (\<forall>k. k \<in> set dirty \<longleftrightarrow>
                 (\<exists>v. map_of dataPre k = Some v \<and>
                      (case map_of dataPost k of
                         None \<Rightarrow> True
                       | Some vPost \<Rightarrow> \<not> DeepEqual v vPost))) \<and>
            (\<forall>k. map_of dataPre k = None \<longrightarrow> k \<notin> set dirty)"
    by (intro exI conjI) (rule pre 1 2 3 4 5)+
next
  show "dirtyLoop (goRange order' [(''a'', JNumber 1), (''b'', JNumber 2)])
           [(''a'', JNumber 1), (''b'', JNumber 3)] [] = [''b'']"
    by (rule dirty_example_changed)
next
  show "dirtyLoop (goRange order' [(''a'', JNumber 1), (''b'', JNumber 2)])
           [(''a'', JNumber 1)] [] = [''b'']"
    by (rule dirty_example_removed)
qed

theorem dirty_asymmetric_diff_witness:
  \<open>livewireUpdate demoLibs demoRenderer [] (counterMessage [callMethod ''Bump'']) =
     Ok (demoResponse [''b''] (demoPatch ''3'') ''e46bcf62'' ''{"a":1,"b":3}'') \<and>
   livewireUpdate demoLibs demoRenderer [1] (counterMessage [callMethod ''Clear'']) =
     Ok (demoResponse [''b''] (demoPatch ''0'') ''a3cbb5b2'' ''{"a":1}'') \<and>
   HTMLHash (LivewireMessageResponse.ServerMemo
              (demoResponse [''b''] (demoPatch ''0'') ''a3cbb5b2'' ''{"a":1}'')) \<noteq>
     HTMLHash (LivewireMessage.ServerMemo (counterMessage [callMethod ''Clear''])) \<and>
   UnmarshalMap demoLibs (Data (LivewireMessage.ServerMemo (counterMessage [callMethod ''Clear'']))) =
     Inr [(''a'', JNumber 1), (''b'', JNumber 2)] \<and>
   UnmarshalMap demoLibs ''{"a":1}'' = Inr [(''a'', JNumber 1)] \<and>
   (\<exists>dataPre dataPost dirty.
      UnmarshalMap demoLibs
        (Data (LivewireMessage.ServerMemo (counterMessage [callMethod ''Clear'']))) = Inr dataPre \<and>
      UnmarshalMap demoLibs
        (Data (LivewireMessageResponse.ServerMemo
                (demoResponse [''b''] (demoPatch ''0'') ''a3cbb5b2'' ''{"a":1}''))) = Inr dataPost \<and>
      Dirty (Effects (demoResponse [''b''] (demoPatch ''0'') ''a3cbb5b2'' ''{"a":1}'')) = Some dirty \<and>
      distinct dirty \<and>
      (\<forall>k. k \<in> set dirty \<longleftrightarrow>
           (\<exists>v. map_of dataPre k = Some v \<and>
                (case map_of dataPost k of None \<Rightarrow> True | Some vPost \<Rightarrow> \<not> DeepEqual v vPost))) \<and>
      (\<forall>k. map_of dataPre k = None \<longrightarrow> k \<notin> set dirty))\<close>
proof -
  have h1: \<open>livewireUpdate demoLibs demoRenderer [1] (counterMessage [callMethod ''Clear'']) =
     Ok (demoResponse [''b''] (demoPatch ''0'') ''a3cbb5b2'' ''{"a":1}'')\<close>
    by (rule demo_clear)
  have h2: \<open>HTMLHash (LivewireMessageResponse.ServerMemo
              (demoResponse [''b''] (demoPatch ''0'') ''a3cbb5b2'' ''{"a":1}'')) \<noteq>
     HTMLHash (LivewireMessage.ServerMemo (counterMessage [callMethod ''Clear'']))\<close>
    by (simp add: demoResponse_def counterMessage_def demoMessage_def)
  have h3: \<open>UnmarshalMap demoLibs (Data (LivewireMessage.ServerMemo (counterMessage [callMethod ''Clear'']))) =
     Inr [(''a'', JNumber 1), (''b'', JNumber 2)]\<close>
    by (simp add: demoLibs_def demoUnmarshalMap_def counterMessage_def demoMessage_def)
  have h4: \<open>UnmarshalMap demoLibs ''{"a":1}'' = Inr [(''a'', JNumber 1)]\<close>
    by (simp add: demoLibs_def demoUnmarshalMap_def)
  note t = dirty_asymmetric_diff [OF h1 h2, THEN conjunct1]
  show ?thesis by (intro conjI) (rule demo_bump h1 h2 h3 h4 t)+
qed

text \<open>
  C2, as amended. A successful initial render fixes the component, the one value
  \<open>data\<close> that \<open>InitialData\<close> returns, the markup \<open>out\<close> the template makes of it and the
  bytes \<open>dataJ\<close> JSON writes for it. Suppose the data survives the round trip through
  JSON (\<open>InitialData\<close> returns a pointer, and \<open>dataJ\<close> read into a fresh value gives
  \<open>data\<close> back) and the request rebuilt from the method and the path renders the same
  markup. Then every message with no updates that names the component and echoes the
  token of \<open>out\<close> and \<open>dataJ\<close> gets the response with the empty list of dirty fields, no
  markup, and the same token and data.
\<close>

theorem round_trip_unchanged:
  assumes "livewireInitial libs r rnd order0 req name = Ok html"
  shows "\<exists>c data out dataJ.
           livewireComponentByName r name = Some c \<and>
           InitialData c = Some [data] \<and>
           renderPartialFromDir libs req ''livewire'' name data = Inr out \<and>
           Marshal libs data = Inr dataJ \<and>
           (\<forall>typeName zero req' message order.
              InitialDataElem c = Some (typeName, zero) \<and>
              Unmarshal libs dataJ zero = Inr data \<and>
              NewRequest libs (Request.Method req) (URL_Path req) = Inr req' \<and>
              renderPartialFromDir libs req' ''livewire'' name data = Inr out \<and>
              LivewireFingerprint.Name (Fingerprint message) = name \<and>
              Path (Fingerprint message) = URL_Path req \<and>
              LivewireFingerprint.Method (Fingerprint message) = Request.Method req \<and>
              HTMLHash (LivewireMessage.ServerMemo message) = htmlHash out \<and>
              Data (LivewireMessage.ServerMemo message) = dataJ \<and>
              Updates message = [] \<longrightarrow>
              livewireUpdate libs r order message =
                Ok \<lparr>Effects = \<lparr>Dirty = Some [], HTML = []\<rparr>,
                    ServerMemo = \<lparr>HTMLHash = htmlHash out, Data = dataJ, DataMeta = None,
                                   Children = None, Errors = None\<rparr>\<rparr>)"
proof -
  from assms obtain c data out dataJ where
    1: "livewireComponentByName r name = Some c"
    and 2: "InitialData c = Some [data]"
    and 3: "renderPartialFromDir libs req ''livewire'' name data = Inr out"
    and 4: "Marshal libs data = Inr dataJ"
    by (rule livewireInitial_Ok)
  have "livewireUpdate libs r order message =
                Ok \<lparr>Effects = \<lparr>Dirty = Some [], HTML = []\<rparr>,
                    ServerMemo = \<lparr>HTMLHash = htmlHash out, Data = dataJ, DataMeta = None,
                                   Children = None, Errors = None\<rparr>\<rparr>"
    if "InitialDataElem c = Some (typeName, zero)"
      and "Unmarshal libs dataJ zero = Inr data"
      and "NewRequest libs (Request.Method req) (URL_Path req) = Inr req'"
      and "renderPartialFromDir libs req' ''livewire'' name data = Inr out"
      and "LivewireFingerprint.Name (Fingerprint message) = name"
      and "Path (Fingerprint message) = URL_Path req"
      and "LivewireFingerprint.Method (Fingerprint message) = Request.Method req"
      and "HTMLHash (LivewireMessage.ServerMemo message) = htmlHash out"
      and "Data (LivewireMessage.ServerMemo message) = dataJ"
      and "Updates message = []"
    for typeName zero req' message order
    using that 1 4 by (simp add: livewireUpdate_def Let_def)
  with 1 2 3 4 show ?thesis by blast
qed

theorem round_trip_unchanged_witness:
  \<open>livewireInitial demoLibs demoRenderer demoRnd [] demoRequest ''Counter'' =
     Ok (demoInitialHtml ''Counter'' ''2'' ''d90be6d2'' ''{"a":1,"b":2}'') \<and>
   htmlHash ''<p>2</p>'' = ''d90be6d2'' \<and>
   Marshal demoLibs (counterData 1 2 []) = Inr ''{"a":1,"b":2}'' \<and>
   Unmarshal demoLibs ''{"a":1,"b":2}'' (counterData 0 0 []) = Inr (counterData 1 2 []) \<and>
   livewireUpdate demoLibs demoRenderer [] (counterMessage []) =
     Ok \<lparr>Effects = \<lparr>Dirty = Some [], HTML = []\<rparr>,
         ServerMemo = \<lparr>HTMLHash = htmlHash ''<p>2</p>'', Data = ''{"a":1,"b":2}'', DataMeta = None,
                        Children = None, Errors = None\<rparr>\<rparr>\<close>
proof -
  let ?req' = "\<lparr>Request.Method = ''GET'', URL_Path = ''/shop'', Rest = []\<rparr>"
  have 1: "livewireComponentByName demoRenderer ''Counter'' = Some Counter"
    by (simp add: demo_defs)
  have 2: "InitialData Counter = Some [counterData 1 2 []]"
    by (simp add: Counter_def)
  have 3: "renderPartialFromDir demoLibs demoRequest ''livewire'' ''Counter'' (counterData 1 2 []) =
             Inr ''<p>2</p>''"
    by (simp add: run_defs demo_defs)
  have 4: \<open>Marshal demoLibs (counterData 1 2 []) = Inr ''{"a":1,"b":2}''\<close>
    by (simp add: demo_defs)
  have 5: "InitialDataElem Counter = Some (''CounterData'', counterData 0 0 [])"
    by (simp add: Counter_def)
  have 6: \<open>Unmarshal demoLibs ''{"a":1,"b":2}'' (counterData 0 0 []) = Inr (counterData 1 2 [])\<close>
    by (simp add: demo_defs)
  have 7: "NewRequest demoLibs (Request.Method demoRequest) (URL_Path demoRequest) = Inr ?req'"
    by (simp add: demo_defs)
  have 8: "renderPartialFromDir demoLibs ?req' ''livewire'' ''Counter'' (counterData 1 2 []) =
             Inr ''<p>2</p>''"
    by (simp add: run_defs demo_defs)
  have 9: "LivewireFingerprint.Name (Fingerprint (counterMessage [])) = ''Counter''"
    by (simp add: counterMessage_def demoMessage_def demoFingerprint_def)
  have 10: "Path (Fingerprint (counterMessage [])) = URL_Path demoRequest"
    by (simp add: counterMessage_def demoMessage_def demoFingerprint_def demoRequest_def)
  have 11: "LivewireFingerprint.Method (Fingerprint (counterMessage [])) = Request.Method demoRequest"
    by (simp add: counterMessage_def demoMessage_def demoFingerprint_def demoRequest_def)
  have 12: "HTMLHash (LivewireMessage.ServerMemo (counterMessage [])) = htmlHash ''<p>2</p>''"
    by (simp add: counterMessage_def demoMessage_def htmlHash_p2)
  have 13: \<open>Data (LivewireMessage.ServerMemo (counterMessage [])) = ''{"a":1,"b":2}''\<close>
    by (simp add: counterMessage_def demoMessage_def)
  have 14: "Updates (counterMessage []) = []"
    by (simp add: counterMessage_def demoMessage_def)
  from round_trip_unchanged [OF demo_initial_Counter] obtain c data out dataJ where
    c: "livewireComponentByName demoRenderer ''Counter'' = Some c"
    and d: "InitialData c = Some [data]"
    and o: "renderPartialFromDir demoLibs demoRequest ''livewire'' ''Counter'' data = Inr out"
    and j: "Marshal demoLibs data = Inr dataJ"
    and rt: "\<And>typeName zero req' message order.
              InitialDataElem c = Some (typeName, zero) \<Longrightarrow>
              Unmarshal demoLibs dataJ zero = Inr data \<Longrightarrow>
              NewRequest demoLibs (Request.Method demoRequest) (URL_Path demoRequest) = Inr req' \<Longrightarrow>
              renderPartialFromDir demoLibs req' ''livewire'' ''Counter'' data = Inr out \<Longrightarrow>
              LivewireFingerprint.Name (Fingerprint message) = ''Counter'' \<Longrightarrow>
              Path (Fingerprint message) = URL_Path demoRequest \<Longrightarrow>
              LivewireFingerprint.Method (Fingerprint message) = Request.Method demoRequest \<Longrightarrow>
              HTMLHash (LivewireMessage.ServerMemo message) = htmlHash out \<Longrightarrow>
              Data (LivewireMessage.ServerMemo message) = dataJ \<Longrightarrow>
              Updates message = [] \<Longrightarrow>
              livewireUpdate demoLibs demoRenderer order message =
                Ok \<lparr>Effects = \<lparr>Dirty = Some [], HTML = []\<rparr>,
                    ServerMemo = \<lparr>HTMLHash = htmlHash out, Data = dataJ, DataMeta = None,
                                   Children = None, Errors = None\<rparr>\<rparr>"
    by blast
  from c 1 have c': "c = Counter" by simp
  from d 2 c' have d': "data = counterData 1 2 []" by simp
  from o 3 d' have o': "out = ''<p>2</p>''" by simp
  from j 4 d' have j': \<open>dataJ = ''{"a":1,"b":2}''\<close> by simp
  note t = rt [unfolded c' d' o' j', OF 5 6 7 8 9 10 11 12 13 14, of "[]"]
  show ?thesis
    by (intro conjI) (rule demo_initial_Counter htmlHash_p2 4 6 t)+
qed

text \<open>
  C2, as stated, fails. The field \<open>Shown\<close> of \<open>Stamp\<close> is left out of JSON: the initial
  render shows 3 and sends the data \<open>{}\<close>; the update reads \<open>{}\<close> into a fresh value, where
  \<open>Shown\<close> is 0, renders other markup, and answers with a fragment although the
  message held no update.
\<close>

theorem round_trip_counterexample:
  \<open>livewireInitial demoLibs demoRenderer demoRnd [] demoRequest ''Stamp'' =
     Ok (demoInitialHtml ''Stamp'' ''3'' ''e46bcf62'' ''{}'') \<and>
   livewireUpdate demoLibs demoRenderer [] (demoMessage ''Stamp'' ''e46bcf62'' ''{}'' []) =
     Ok (demoResponse [] (demoPatch ''0'') ''a3cbb5b2'' ''{}'') \<and>
   HTML (Effects (demoResponse [] (demoPatch ''0'') ''a3cbb5b2'' ''{}'')) \<noteq> []\<close>
  by (simp add: demo_initial_Stamp demo_echo_Stamp) (simp add: demoResponse_def demoPatch_def)

text \<open>
  C3, as amended. The update is all or nothing. Suppose the component is found, its
  data deserialises and the updates before \<open>u\<close> succeed. If \<open>u\<close> returns an error, the
  whole call returns that error and no response, so nothing of what the earlier
  updates did reaches the client; if \<open>u\<close> is a \<open>callMethod\<close> whose method returns a
  non-nil error, the error returned is \<open>failed to call method on component\<close>, wrapping
  the method's error and tagged with the component's name and the payload. If \<open>u\<close>
  panics (a method or a field that reflection does not find, a field it cannot set),
  the whole call panics and returns neither an error nor a response. In no case where
  \<open>u\<close> does not succeed is there a response.
\<close>

theorem update_atomic:
  assumes "livewireComponentByName r (LivewireFingerprint.Name (Fingerprint message)) = Some c"
    and "InitialDataElem c = Some (typeName, zero)"
    and "Unmarshal libs (Data (LivewireMessage.ServerMemo message)) zero = Inr dataVal0"
    and "Updates message = us @ u # vs"
    and "applyUpdates libs c (LivewireFingerprint.Name (Fingerprint message)) dataVal0 us = Ok dataVal"
  shows "(\<forall>e. applyUpdate libs c (LivewireFingerprint.Name (Fingerprint message)) dataVal u = Err e
              \<longrightarrow> livewireUpdate libs r order message = Err e) \<and>
         (\<forall>payload m err rets dataVal'.
            Type u = ''callMethod'' \<and>
            UnmarshalCallMethod libs (Payload u) = Inr payload \<and>
            Methods c (LivewireUpdatePayloadCallMethod.Method payload) = Some m \<and>
            m dataVal = CallReturns (RetError err # rets) dataVal' \<longrightarrow>
            livewireUpdate libs r order message =
              Err (CError (Some err) ''failed to call method on component''
                     [(''component'', TStr (LivewireFingerprint.Name (Fingerprint message))),
                      (''payload'', TCall payload)])) \<and>
         (\<forall>p. applyUpdate libs c (LivewireFingerprint.Name (Fingerprint message)) dataVal u = Panic p
              \<longrightarrow> livewireUpdate libs r order message = Panic p) \<and>
         ((\<forall>dataVal'. applyUpdate libs c (LivewireFingerprint.Name (Fingerprint message)) dataVal u
                         \<noteq> Ok dataVal')
              \<longrightarrow> (\<forall>resp. livewireUpdate libs r order message \<noteq> Ok resp))"
proof -
  let ?n = "LivewireFingerprint.Name (Fingerprint message)"
  have loop: "applyUpdates libs c ?n dataVal0 (Updates message) =
      (case applyUpdate libs c ?n dataVal u of
         Ok d' \<Rightarrow> applyUpdates libs c ?n d' vs
       | Err e \<Rightarrow> Err e
       | Panic p \<Rightarrow> Panic p)"
    using assms(4,5) by (simp add: applyUpdates_at)
  have err: "livewireUpdate libs r order message = Err e"
    if "applyUpdate libs c ?n dataVal u = Err e" for e
  proof -
    from that loop have "applyUpdates libs c ?n dataVal0 (Updates message) = Err e" by simp
    with assms(1-3) show ?thesis by (rule livewireUpdate_loop_Err)
  qed
  have panic: "livewireUpdate libs r order message = Panic p"
    if "applyUpdate libs c ?n dataVal u = Panic p" for p
  proof -
    from that loop have "applyUpdates libs c ?n dataVal0 (Updates message) = Panic p" by simp
    with assms(1-3) show ?thesis by (rule livewireUpdate_loop_Panic)
  qed
  have wrapped: "livewireUpdate libs r order message =
              Err (CError (Some err) ''failed to call method on component''
                     [(''component'', TStr ?n), (''payload'', TCall payload)])"
    if "Type u = ''callMethod''"
      and "UnmarshalCallMethod libs (Payload u) = Inr payload"
      and "Methods c (LivewireUpdatePayloadCallMethod.Method payload) = Some m"
      and "m dataVal = CallReturns (RetError err # rets) dataVal'"
    for payload m err rets dataVal'
    using that by (intro err) (simp add: applyUpdate_def)
  have none: "livewireUpdate libs r order message \<noteq> Ok resp"
    if "\<forall>dataVal'. applyUpdate libs c ?n dataVal u \<noteq> Ok dataVal'" for resp
  proof (cases "applyUpdate libs c ?n dataVal u")
    case (Ok d)
    with that show ?thesis by simp
  next
    case (Err e)
    then show ?thesis by (simp add: err)
  next
    case (Panic p)
    then show ?thesis by (simp add: panic)
  qed
  show ?thesis
    using err wrapped panic none by blast
qed

theorem update_atomic_witness:
  \<open>applyUpdates demoLibs Counter ''Counter'' (counterData 1 2 []) [callMethod ''Bump''] =
     Ok (counterData 1 3 []) \<and>
   counterFail (counterData 1 3 []) =
     CallReturns [RetError (GoError ''out of stock'')] (counterData 1 3 []) \<and>
   livewireUpdate demoLibs demoRenderer []
     (counterMessage [callMethod ''Bump'', callMethod ''Fail'', callMethod ''Clear'']) =
     Err (CError (Some (GoError ''out of stock'')) ''failed to call method on component''
            [(''component'', TStr ''Counter''),
             (''payload'', TCall \<lparr>LivewireUpdatePayloadCallMethod.ID = ''u1'', Method = ''Fail'',
                                   Params = Some []\<rparr>)])\<close>
proof -
  let ?m = "counterMessage [callMethod ''Bump'', callMethod ''Fail'', callMethod ''Clear'']"
  let ?p = "\<lparr>LivewireUpdatePayloadCallMethod.ID = ''u1'', Method = ''Fail'', Params = Some []\<rparr>"
  have n: "LivewireFingerprint.Name (Fingerprint ?m) = ''Counter''"
    by (simp add: counterMessage_def demoMessage_def demoFingerprint_def)
  have 1: "livewireComponentByName demoRenderer (LivewireFingerprint.Name (Fingerprint ?m)) = Some Counter"
    by (simp add: demo_defs)
  have 2: "InitialDataElem Counter = Some (''CounterData'', counterData 0 0 [])"
    by (simp add: Counter_def)
  have 3: "Unmarshal demoLibs (Data (LivewireMessage.ServerMemo ?m)) (counterData 0 0 []) =
             Inr (counterData 1 2 [])"
    by (simp add: demo_defs)
  have 4: "Updates ?m = [callMethod ''Bump''] @ callMethod ''Fail'' # [callMethod ''Clear'']"
    by (simp add: counterMessage_def demoMessage_def)
  have 5: "applyUpdates demoLibs Counter (LivewireFingerprint.Name (Fingerprint ?m))
             (counterData 1 2 []) [callMethod ''Bump''] = Ok (counterData 1 3 [])"
    by (simp add: run_defs demo_defs)
  have 6: "Type (callMethod ''Fail'') = ''callMethod''"
    by (simp add: callMethod_def)
  have 7: "UnmarshalCallMethod demoLibs (Payload (callMethod ''Fail'')) = Inr ?p"
    by (simp add: demo_defs)
  have 8: "Methods Counter (LivewireUpdatePayloadCallMethod.Method ?p) = Some counterFail"
    by (simp add: Counter_def)
  have 9: "counterFail (counterData 1 3 []) =
     CallReturns (RetError (GoError ''out of stock'') # []) (counterData 1 3 [])"
    by (simp add: counterFail_def)
  note t = update_atomic [OF 1 2 3 4 5, of "[]", THEN conjunct2, THEN conjunct1, rule_format,
      OF conjI [OF 6 conjI [OF 7 conjI [OF 8 9]]]]
  from t 5 9 show ?thesis unfolding n by simp
qed

text \<open>
  C3, as stated, fails. The first update succeeds and the second one fails, naming a
  field \<open>Title\<close> that \<open>CounterData\<close> does not have: the call ends in a panic of the
  reflection library and returns no error.
\<close>

theorem update_fails_without_error:
  \<open>applyUpdates demoLibs Counter ''Counter'' (counterData 1 2 []) [callMethod ''Bump''] =
     Ok (counterData 1 3 []) \<and>
   FieldByName ''Title'' (counterFields 1 3 []) = None \<and>
   livewireUpdate demoLibs demoRenderer []
     (counterMessage [callMethod ''Bump'', syncInput ''Title'' ''hi'']) =
     Panic ''reflect: call of reflect.Value.Set on zero Value''\<close>
proof (intro conjI)
  show "applyUpdates demoLibs Counter ''Counter'' (counterData 1 2 []) [callMethod ''Bump''] =
     Ok (counterData 1 3 [])"
    by (simp add: run_defs demo_defs)
  show "FieldByName ''Title'' (counterFields 1 3 []) = None"
    by (simp add: FieldByName_def counterFields_def demoField_def)
  show "livewireUpdate demoLibs demoRenderer []
     (counterMessage [callMethod ''Bump'', syncInput ''Title'' ''hi'']) =
     Panic ''reflect: call of reflect.Value.Set on zero Value''"
    by (simp add: run_defs demo_defs)
qed

text \<open>
  C4, as amended. A \<open>syncInput\<close> update that is reached assigns its string value to the
  named field of the data and leaves every other field as it was, provided the data
  is a struct that has an exported field of that name whose type takes a string. When
  the field does not exist, is unexported, or has a type a string cannot be assigned
  to, the call panics: it returns neither an error nor a response.
\<close>

theorem syncInput_assigns_or_panics:
  assumes "livewireComponentByName r (LivewireFingerprint.Name (Fingerprint message)) = Some c"
    and "InitialDataElem c = Some (typeName, zero)"
    and "Unmarshal libs (Data (LivewireMessage.ServerMemo message)) zero = Inr dataVal0"
    and "Updates message = us @ u # vs"
    and "applyUpdates libs c (LivewireFingerprint.Name (Fingerprint message)) dataVal0 us = Ok dataVal"
    and "Type u = ''syncInput''"
    and "UnmarshalSyncInput libs (Payload u) = Inr payload"
  shows "(settable (LivewireUpdatePayloadSyncInput.Name payload) dataVal \<longrightarrow>
           (\<exists>fs fs' f.
              dataVal = Struct fs \<and>
              applyUpdate libs c (LivewireFingerprint.Name (Fingerprint message)) dataVal u =
                Ok (Struct fs') \<and>
              FieldByName (LivewireUpdatePayloadSyncInput.Name payload) fs = Some f \<and>
              FieldByName (LivewireUpdatePayloadSyncInput.Name payload) fs' =
                Some (f\<lparr>fieldValue := GString (Value payload)\<rparr>) \<and>
              (\<forall>n'. n' \<noteq> LivewireUpdatePayloadSyncInput.Name payload \<longrightarrow>
                    FieldByName n' fs' = FieldByName n' fs))) \<and>
         (\<not> settable (LivewireUpdatePayloadSyncInput.Name payload) dataVal \<longrightarrow>
           (\<exists>p. livewireUpdate libs r order message = Panic p))"
proof (intro conjI impI)
  have step: "applyUpdate libs c (LivewireFingerprint.Name (Fingerprint message)) dataVal u =
      syncField (LivewireUpdatePayloadSyncInput.Name payload) (Value payload) dataVal"
    using assms(6,7) by (simp add: applyUpdate_def)
  {
    assume "settable (LivewireUpdatePayloadSyncInput.Name payload) dataVal"
    from syncField_settable [OF this, of "Value payload"]
    show "\<exists>fs fs' f.
              dataVal = Struct fs \<and>
              applyUpdate libs c (LivewireFingerprint.Name (Fingerprint message)) dataVal u =
                Ok (Struct fs') \<and>
              FieldByName (LivewireUpdatePayloadSyncInput.Name payload) fs = Some f \<and>
              FieldByName (LivewireUpdatePayloadSyncInput.Name payload) fs' =
                Some (f\<lparr>fieldValue := GString (Value payload)\<rparr>) \<and>
              (\<forall>n'. n' \<noteq> LivewireUpdatePayloadSyncInput.Name payload \<longrightarrow>
                    FieldByName n' fs' = FieldByName n' fs)"
      unfolding step .
  }
  {
    assume "\<not> settable (LivewireUpdatePayloadSyncInput.Name payload) dataVal"
    from syncField_not_settable [OF this, of "Value payload"] obtain p where
      "applyUpdate libs c (LivewireFingerprint.Name (Fingerprint message)) dataVal u = Panic p"
      unfolding step by blast
    with assms(4,5) have "applyUpdates libs c (LivewireFingerprint.Name (Fingerprint message))
        dataVal0 (Updates message) = Panic p"
      by (simp add: applyUpdates_at)
    with assms(1-3) have "livewireUpdate libs r order message = Panic p"
      by (rule livewireUpdate_loop_Panic)
    then show "\<exists>p. livewireUpdate libs r order message = Panic p" ..
  }
qed

theorem syncInput_assigns_or_panics_witness:
  \<open>settable ''Note'' (counterData 1 2 []) \<and>
   applyUpdate demoLibs Counter ''Counter'' (counterData 1 2 []) (syncInput ''Note'' ''hi'') =
     Ok (counterData 1 2 ''hi'') \<and>
   (\<exists>fs fs' f.
      counterData 1 2 [] = Struct fs \<and>
      applyUpdate demoLibs Counter ''Counter'' (counterData 1 2 []) (syncInput ''Note'' ''hi'') =
        Ok (Struct fs') \<and>
      FieldByName ''Note'' fs = Some f \<and>
      FieldByName ''Note'' fs' = Some (f\<lparr>fieldValue := GString ''hi''\<rparr>) \<and>
      (\<forall>n'. n' \<noteq> ''Note'' \<longrightarrow> FieldByName n' fs' = FieldByName n' fs)) \<and>
   \<not> settable ''A'' (counterData 1 2 []) \<and>
   (\<exists>p. livewireUpdate demoLibs demoRenderer [] (counterMessage [syncInput ''A'' ''hi'']) = Panic p) \<and>
   livewireUpdate demoLibs demoRenderer [] (counterMessage [syncInput ''A'' ''hi'']) =
     Panic ''reflect.Set: value of type string is not assignable to the type of the field''\<close>
proof -
  have n: "\<And>us. LivewireFingerprint.Name (Fingerprint (counterMessage us)) = ''Counter''"
    by (simp add: counterMessage_def demoMessage_def demoFingerprint_def)
  have 1: "\<And>us. livewireComponentByName demoRenderer
             (LivewireFingerprint.Name (Fingerprint (counterMessage us))) = Some Counter"
    by (simp add: demo_defs)
  have 2: "InitialDataElem Counter = Some (''CounterData'', counterData 0 0 [])"
    by (simp add: Counter_def)
  have 3: "\<And>us. Unmarshal demoLibs (Data (LivewireMessage.ServerMemo (counterMessage us)))
             (counterData 0 0 []) = Inr (counterData 1 2 [])"
    by (simp add: demo_defs)
  have 4: "\<And>u. Updates (counterMessage [u]) = [] @ u # []"
    by (simp add: counterMessage_def demoMessage_def)
  have 5: "\<And>us. applyUpdates demoLibs Counter
             (LivewireFingerprint.Name (Fingerprint (counterMessage us))) (counterData 1 2 []) [] =
             Ok (counterData 1 2 [])"
    by simp
  have 6: "\<And>n v. Type (syncInput n v) = ''syncInput''" by (simp add: syncInput_def)
  have 7: \<open>UnmarshalSyncInput demoLibs (Payload (syncInput ''Note'' ''hi'')) =
      Inr \<lparr>LivewireUpdatePayloadSyncInput.ID = ''u2'', Name = ''Note'', Value = ''hi''\<rparr>\<close>
    by (simp add: demo_defs)
  have 8: \<open>UnmarshalSyncInput demoLibs (Payload (syncInput ''A'' ''hi'')) =
      Inr \<lparr>LivewireUpdatePayloadSyncInput.ID = ''u2'', Name = ''A'', Value = ''hi''\<rparr>\<close>
    by (simp add: demo_defs)
  have s1: "settable ''Note'' (counterData 1 2 [])"
    by (simp add: settable_def FieldByName_def demo_defs)
  have s2: "\<not> settable ''A'' (counterData 1 2 [])"
    by (simp add: settable_def FieldByName_def demo_defs)
  note a = syncInput_assigns_or_panics [OF 1 2 3 4 5 6 7, of "[]", THEN conjunct1]
  note b = syncInput_assigns_or_panics [OF 1 2 3 4 5 6 8, of "[]", THEN conjunct2]
  have b': "\<exists>p. livewireUpdate demoLibs demoRenderer [] (counterMessage [syncInput ''A'' ''hi'']) = Panic p"
    using b s2 by simp
  have a': \<open>\<exists>fs fs' f.
      counterData 1 2 [] = Struct fs \<and>
      applyUpdate demoLibs Counter ''Counter'' (counterData 1 2 []) (syncInput ''Note'' ''hi'') =
        Ok (Struct fs') \<and>
      FieldByName ''Note'' fs = Some f \<and>
      FieldByName ''Note'' fs' = Some (f\<lparr>fieldValue := GString ''hi''\<rparr>) \<and>
      (\<forall>n'. n' \<noteq> ''Note'' \<longrightarrow> FieldByName n' fs' = FieldByName n' fs)\<close>
    using a s1 unfolding n by simp
  show ?thesis
    by (intro conjI) (rule s1 demo_sync_Note a' s2 b' demo_sync_A)+
qed

text \<open>
  C4, as stated, fails: \<open>CounterData\<close> has no field \<open>Title\<close>, and the update that names it
  ends in a panic of the reflection library, not in an error handed to the caller.
\<close>

theorem syncInput_missing_field_panics:
  \<open>FieldByName ''Title'' (counterFields 1 2 []) = None \<and>
   livewireUpdate demoLibs demoRenderer [] (counterMessage [syncInput ''Title'' ''hi'']) =
     Panic ''reflect: call of reflect.Value.Set on zero Value''\<close>
  by (simp add: demo_sync_Title) (simp add: FieldByName_def counterFields_def demoField_def)

text \<open>
  C5. A message that holds an update whose type is neither \<open>callMethod\<close> nor
  \<open>syncInput\<close> never gets a response. When the updates before it succeed, the call
  returns the error \<open>unknown update type\<close>, tagged with the offending type.
\<close>

theorem unknown_update_type:
  assumes "u \<in> set (Updates message)"
    and "Type u \<noteq> ''callMethod''" and "Type u \<noteq> ''syncInput''"
  shows "(\<forall>resp. livewireUpdate libs r order message \<noteq> Ok resp) \<and>
         (\<forall>c typeName zero dataVal0 us vs dataVal.
            livewireComponentByName r (LivewireFingerprint.Name (Fingerprint message)) = Some c \<and>
            InitialDataElem c = Some (typeName, zero) \<and>
            Unmarshal libs (Data (LivewireMessage.ServerMemo message)) zero = Inr dataVal0 \<and>
            Updates message = us @ u # vs \<and>
            applyUpdates libs c (LivewireFingerprint.Name (Fingerprint message)) dataVal0 us =
              Ok dataVal \<longrightarrow>
            livewireUpdate libs r order message =
              Err (CError None ''unknown update type'' [(''type'', TStr (Type u))]))"
proof (intro conjI allI impI)
  fix resp
  show "livewireUpdate libs r order message \<noteq> Ok resp"
  proof
    assume "livewireUpdate libs r order message = Ok resp"
    then obtain c dataVal0 dataVal where
      "applyUpdates libs c (LivewireFingerprint.Name (Fingerprint message)) dataVal0
         (Updates message) = Ok dataVal"
      by (rule livewireUpdate_Ok)
    from applyUpdates_Ok_all [OF this assms(1)] obtain d1 d2 where
      "applyUpdate libs c (LivewireFingerprint.Name (Fingerprint message)) d1 u = Ok d2"
      by blast
    with applyUpdate_unknown [OF assms(2,3), of libs c
        "LivewireFingerprint.Name (Fingerprint message)" d1]
    show False by simp
  qed
next
  fix c typeName zero dataVal0 us vs dataVal
  assume a: "livewireComponentByName r (LivewireFingerprint.Name (Fingerprint message)) = Some c \<and>
            InitialDataElem c = Some (typeName, zero) \<and>
            Unmarshal libs (Data (LivewireMessage.ServerMemo message)) zero = Inr dataVal0 \<and>
            Updates message = us @ u # vs \<and>
            applyUpdates libs c (LivewireFingerprint.Name (Fingerprint message)) dataVal0 us =
              Ok dataVal"
  then have "applyUpdates libs c (LivewireFingerprint.Name (Fingerprint message)) dataVal0
          (Updates message) = Err (CError None ''unknown update type'' [(''type'', TStr (Type u))])"
    by (simp add: applyUpdates_at applyUpdate_unknown [OF assms(2,3)])
  with a show "livewireUpdate libs r order message =
              Err (CError None ''unknown update type'' [(''type'', TStr (Type u))])"
    by (blast intro: livewireUpdate_loop_Err)
qed

theorem unknown_update_type_witness:
  \<open>\<lparr>Type = ''bogus'', Payload = ''{}''\<rparr>
     \<in> set (Updates (counterMessage [callMethod ''Bump'', \<lparr>Type = ''bogus'', Payload = ''{}''\<rparr>])) \<and>
   Type \<lparr>Type = ''bogus'', Payload = ''{}''\<rparr> \<noteq> ''callMethod'' \<and>
   Type \<lparr>Type = ''bogus'', Payload = ''{}''\<rparr> \<noteq> ''syncInput'' \<and>
   applyUpdates demoLibs Counter ''Counter'' (counterData 1 2 []) [callMethod ''Bump''] =
     Ok (counterData 1 3 []) \<and>
   livewireUpdate demoLibs demoRenderer []
     (counterMessage [callMethod ''Bump'', \<lparr>Type = ''bogus'', Payload = ''{}''\<rparr>]) =
     Err (CError None ''unknown update type'' [(''type'', TStr ''bogus'')])\<close>
proof -
  let ?u = \<open>\<lparr>Type = ''bogus'', Payload = ''{}''\<rparr>\<close>
  let ?m = "counterMessage [callMethod ''Bump'', ?u]"
  have a: "?u \<in> set (Updates ?m)" by (simp add: counterMessage_def demoMessage_def)
  have b: "Type ?u \<noteq> ''callMethod''" by simp
  have c: "Type ?u \<noteq> ''syncInput''" by simp
  have 1: "livewireComponentByName demoRenderer (LivewireFingerprint.Name (Fingerprint ?m)) = Some Counter"
    by (simp add: demo_defs)
  have 2: "InitialDataElem Counter = Some (''CounterData'', counterData 0 0 [])"
    by (simp add: Counter_def)
  have 3: "Unmarshal demoLibs (Data (LivewireMessage.ServerMemo ?m)) (counterData 0 0 []) =
             Inr (counterData 1 2 [])"
    by (simp add: demo_defs)
  have 4: "Updates ?m = [callMethod ''Bump''] @ ?u # []"
    by (simp add: counterMessage_def demoMessage_def)
  have n: "LivewireFingerprint.Name (Fingerprint ?m) = ''Counter''"
    by (simp add: counterMessage_def demoMessage_def demoFingerprint_def)
  have 5: "applyUpdates demoLibs Counter (LivewireFingerprint.Name (Fingerprint ?m))
             (counterData 1 2 []) [callMethod ''Bump''] = Ok (counterData 1 3 [])"
    by (simp add: run_defs demo_defs)
  from unknown_update_type [OF a b c, of demoLibs demoRenderer "[]"] 1 2 3 4 5
  have "livewireUpdate demoLibs demoRenderer [] ?m =
     Err (CError None ''unknown update type'' [(''type'', TStr (Type ?u))])"
    by blast
  with a b c 5 show ?thesis unfolding n by simp
qed

text \<open>
  C6. A name the registry does not hold makes both entry points return the error
  \<open>component does not exist\<close>, tagged with that name, before anything is rendered: the
  initial render returns no markup and the update no response.
\<close>

theorem unknown_component:
  assumes "livewireComponentByName r name = None"
  shows "livewireInitial libs r rnd order req name =
           Err (CError None ''component does not exist'' [(''name'', TStr name)]) \<and>
         livewireUpdate libs r order'
           (message\<lparr>Fingerprint := (Fingerprint message)\<lparr>LivewireFingerprint.Name := name\<rparr>\<rparr>) =
           Err (CError None ''component does not exist'' [(''name'', TStr name)])"
  using assms by (simp add: livewireInitial_def livewireUpdate_def Let_def)

theorem unknown_component_witness:
  "livewireComponentByName demoRenderer ''Basket'' = None \<and>
   livewireInitial demoLibs demoRenderer demoRnd [] demoRequest ''Basket'' =
     Err (CError None ''component does not exist'' [(''name'', TStr ''Basket'')]) \<and>
   livewireUpdate demoLibs demoRenderer []
     ((counterMessage [])\<lparr>Fingerprint :=
        (Fingerprint (counterMessage []))\<lparr>LivewireFingerprint.Name := ''Basket''\<rparr>\<rparr>) =
     Err (CError None ''component does not exist'' [(''name'', TStr ''Basket'')])"
proof -
  have h: "livewireComponentByName demoRenderer ''Basket'' = None"
    by (simp add: demo_defs)
  from unknown_component [OF h] h show ?thesis by blast
qed

text \<open>
  C8. A \<open>syncInput\<close> update applied twice in a row leaves the same data as applied once,
  wherever in the sequence it stands; the whole update then gives the same result,
  response, error or panic.
\<close>

theorem syncInput_idempotent:
  assumes "Type u = ''syncInput''"
  shows "applyUpdates libs c component dataVal [u, u] = applyUpdates libs c component dataVal [u] \<and>
         livewireUpdate libs r order (message\<lparr>Updates := us @ [u, u] @ vs\<rparr>) =
         livewireUpdate libs r order (message\<lparr>Updates := us @ [u] @ vs\<rparr>)"
proof
  show "applyUpdates libs c component dataVal [u, u] = applyUpdates libs c component dataVal [u]"
    using assms by (rule applyUpdates_syncInput_twice)
  have eq: "applyUpdates libs c' n d (us @ u # u # vs) = applyUpdates libs c' n d (us @ u # vs)"
    for c' n d
    using applyUpdates_syncInput_twice_mid [OF assms, of libs c' n d us vs] by simp
  show "livewireUpdate libs r order (message\<lparr>Updates := us @ [u, u] @ vs\<rparr>) =
         livewireUpdate libs r order (message\<lparr>Updates := us @ [u] @ vs\<rparr>)"
    by (simp add: livewireUpdate_def Let_def eq cong: option.case_cong sum.case_cong prod.case_cong)
qed

theorem syncInput_idempotent_witness:
  \<open>Type (syncInput ''Note'' ''hi'') = ''syncInput'' \<and>
   applyUpdates demoLibs Counter ''Counter'' (counterData 1 2 [])
     [syncInput ''Note'' ''hi'', syncInput ''Note'' ''hi''] = Ok (counterData 1 2 ''hi'') \<and>
   applyUpdates demoLibs Counter ''Counter'' (counterData 1 2 [])
     [syncInput ''Note'' ''hi''] = Ok (counterData 1 2 ''hi'') \<and>
   livewireUpdate demoLibs demoRenderer []
     ((counterMessage [])\<lparr>Updates :=
        [] @ [syncInput ''Note'' ''hi'', syncInput ''Note'' ''hi''] @ []\<rparr>) =
     Ok (demoResponse [] [] ''d90be6d2'' ''{"a":1,"b":2,"note":"hi"}'') \<and>
   livewireUpdate demoLibs demoRenderer []
     ((counterMessage [])\<lparr>Updates := [] @ [syncInput ''Note'' ''hi''] @ []\<rparr>) =
     Ok (demoResponse [] [] ''d90be6d2'' ''{"a":1,"b":2,"note":"hi"}'')\<close>
proof -
  have h: "Type (syncInput ''Note'' ''hi'') = ''syncInput''"
    by (simp add: syncInput_def)
  have once: "applyUpdates demoLibs Counter ''Counter'' (counterData 1 2 [])
     [syncInput ''Note'' ''hi''] = Ok (counterData 1 2 ''hi'')"
    by (simp add: demo_sync_Note)
  have run: \<open>livewireUpdate demoLibs demoRenderer []
     ((counterMessage [])\<lparr>Updates := [] @ [syncInput ''Note'' ''hi''] @ []\<rparr>) =
     Ok (demoResponse [] [] ''d90be6d2'' ''{"a":1,"b":2,"note":"hi"}'')\<close>
    by (simp add: run_defs demo_defs htmlHash_p2)
  note t = syncInput_idempotent [OF h, where libs = demoLibs and c = Counter
      and component = "''Counter''" and dataVal = "counterData 1 2 []" and r = demoRenderer
      and order = "[]" and message = "counterMessage []" and us = "[]" and vs = "[]"]
  from t once run h show ?thesis by (simp del: append.simps)
qed

text \<open>
  C9. A response always carries a list of dirty fields, never \<open>nil\<close>; when the token
  did not change, the list is the empty one.
\<close>

theorem dirty_initialized:
  assumes "livewireUpdate libs r order message = Ok resp"
  shows "\<exists>dirty. Dirty (Effects resp) = Some dirty \<and>
           (HTMLHash (LivewireMessage.ServerMemo message) =
              HTMLHash (LivewireMessageResponse.ServerMemo resp) \<longrightarrow> dirty = [])"
  using assms by (rule livewireUpdate_Ok) auto

theorem dirty_initialized_witness:
  \<open>livewireUpdate demoLibs demoRenderer [] (counterMessage []) =
     Ok (demoResponse [] [] ''d90be6d2'' ''{"a":1,"b":2}'') \<and>
   HTMLHash (LivewireMessage.ServerMemo (counterMessage [])) =
     HTMLHash (LivewireMessageResponse.ServerMemo
                (demoResponse [] [] ''d90be6d2'' ''{"a":1,"b":2}'')) \<and>
   Dirty (Effects (demoResponse [] [] ''d90be6d2'' ''{"a":1,"b":2}'')) = Some []\<close>
proof -
  have h: \<open>livewireUpdate demoLibs demoRenderer [] (counterMessage []) =
     Ok (demoResponse [] [] ''d90be6d2'' ''{"a":1,"b":2}'')\<close>
    by (rule demo_echo)
  have e: \<open>HTMLHash (LivewireMessage.ServerMemo (counterMessage [])) =
     HTMLHash (LivewireMessageResponse.ServerMemo
                (demoResponse [] [] ''d90be6d2'' ''{"a":1,"b":2}''))\<close>
    by (simp add: counterMessage_def demoMessage_def demoResponse_def)
  from dirty_initialized [OF h] e h show ?thesis by auto
qed

text \<open>
  C10. A successful initial render draws one id of 20 characters and uses it in three
  places. The envelope that is serialised has this id as its fingerprint's \<open>id\<close>; the
  root element, when the markup has one, is rendered with the attribute \<open>wire:id\<close> set
  to the id and \<open>wire:initial-data\<close> set to the serialised envelope, its other
  attributes untouched; and the markup ends with the end marker that names the id.
  This holds for either order in which the two attributes are set.
\<close>

theorem initial_id_consistent:
  assumes "livewireInitial libs r rnd order req name = Ok html"
  shows "\<exists>out dataJ initialData doc rendered.
           length (GenerateRandomString 20 rnd) = 20 \<and>
           MarshalInitialData libs
             \<lparr>LivewireFingerprint.ID = GenerateRandomString 20 rnd, Name = name, Locale = ''en'',
              Path = URL_Path req, Method = Request.Method req, InvalidationHash = ''aaa''\<rparr>
             \<lparr>HTMLHash = htmlHash out, Data = dataJ, DataMeta = None, Children = None,
              Errors = None\<rparr>
             \<lparr>Listeners = None\<rparr> = Inr initialData \<and>
           NewDocumentFromReader libs out = Inr doc \<and>
           (case doc of
              [] \<Rightarrow> rendered = []
            | node # rest \<Rightarrow>
                (\<exists>as. Render libs (node\<lparr>Attr := as\<rparr>) = Inr rendered \<and>
                      map_of as ''wire:id'' = Some (GenerateRandomString 20 rnd) \<and>
                      map_of as ''wire:initial-data'' = Some initialData \<and>
                      (\<forall>k. k \<noteq> ''wire:id'' \<and> k \<noteq> ''wire:initial-data'' \<longrightarrow>
                           map_of as k = map_of (Attr node) k))) \<and>
           html = rendered @ newline @ ''<!-- Livewire Component wire-end:''
                    @ GenerateRandomString 20 rnd @ '' -->'' @ newline"
proof -
  let ?id = "GenerateRandomString 20 rnd"
  from assms obtain out dataJ initialData where
    env: "MarshalInitialData libs
       \<lparr>LivewireFingerprint.ID = ?id, Name = name, Locale = ''en'',
        Path = URL_Path req, Method = Request.Method req, InvalidationHash = ''aaa''\<rparr>
       \<lparr>HTMLHash = htmlHash out, Data = dataJ, DataMeta = None, Children = None, Errors = None\<rparr>
       \<lparr>Listeners = None\<rparr> = Inr initialData"
    and upd: "updateHTML libs order out
       [(''wire:id'', ?id), (''wire:initial-data'', initialData)]
       (''<!-- Livewire Component wire-end:'' @ ?id @ '' -->'') = Inr html"
    by (rule livewireInitial_Ok)
  let ?attrs = "[(''wire:id'', ?id), (''wire:initial-data'', initialData)]"
  let ?es = "goRange order ?attrs"
  let ?set = "\<lambda>as. foldl (\<lambda>as (k, v). setAttribute k v as) as ?es"
  from upd obtain doc rendered where
    doc: "NewDocumentFromReader libs out = Inr doc"
    and ren: "OuterHtml libs (map (\<lambda>n. n\<lparr>Attr := ?set (Attr n)\<rparr>) (Find_first_child doc)) = Inr rendered"
    and html: "html = rendered @ newline @ ''<!-- Livewire Component wire-end:'' @ ?id @ '' -->'' @ newline"
    unfolding updateHTML_def Let_def foldl_SetAttr
    by (auto split: sum.splits)
  have look: "map_of (?set as) k = (case map_of ?attrs k of Some v \<Rightarrow> Some v | None \<Rightarrow> map_of as k)"
    for as k
    using map_of_setAttributes [OF distinct_goRange [of order ?attrs], of as k]
    by (simp only: map_of_goRange)
  have first: "case doc of
              [] \<Rightarrow> rendered = []
            | node # rest \<Rightarrow>
                (\<exists>as. Render libs (node\<lparr>Attr := as\<rparr>) = Inr rendered \<and>
                      map_of as ''wire:id'' = Some ?id \<and>
                      map_of as ''wire:initial-data'' = Some initialData \<and>
                      (\<forall>k. k \<noteq> ''wire:id'' \<and> k \<noteq> ''wire:initial-data'' \<longrightarrow>
                           map_of as k = map_of (Attr node) k))"
  proof (cases doc)
    case Nil
    with ren show ?thesis by (simp add: Find_first_child_def OuterHtml_def)
  next
    case (Cons node rest)
    with ren have "Render libs (node\<lparr>Attr := ?set (Attr node)\<rparr>) = Inr rendered"
      by (simp add: Find_first_child_def OuterHtml_def)
    moreover have "map_of (?set (Attr node)) ''wire:id'' = Some ?id"
      by (simp add: look)
    moreover have "map_of (?set (Attr node)) ''wire:initial-data'' = Some initialData"
      by (simp add: look)
    moreover have "\<forall>k. k \<noteq> ''wire:id'' \<and> k \<noteq> ''wire:initial-data'' \<longrightarrow>
                           map_of (?set (Attr node)) k = map_of (Attr node) k"
      by (simp add: look)
    ultimately show ?thesis unfolding Cons by (simp only: list.case) blast
  qed
  have len: "length ?id = 20" by (rule length_GenerateRandomString)
  show ?thesis
    by (intro exI conjI) (rule len env doc first html)+
qed

theorem initial_id_consistent_witness:
  \<open>livewireInitial demoLibs demoRenderer demoRnd [] demoRequest ''Counter'' =
     Ok (demoInitialHtml ''Counter'' ''2'' ''d90be6d2'' ''{"a":1,"b":2}'') \<and>
   GenerateRandomString 20 demoRnd = ''k3Xp9QzL2mVt7RwB5cYd'' \<and>
   (\<exists>out dataJ initialData doc rendered.
      length (GenerateRandomString 20 demoRnd) = 20 \<and>
      MarshalInitialData demoLibs
        \<lparr>LivewireFingerprint.ID = GenerateRandomString 20 demoRnd, Name = ''Counter'',
         Locale = ''en'', Path = URL_Path demoRequest, Method = Request.Method demoRequest,
         InvalidationHash = ''aaa''\<rparr>
        \<lparr>HTMLHash = htmlHash out, Data = dataJ, DataMeta = None, Children = None,
         Errors = None\<rparr>
        \<lparr>Listeners = None\<rparr> = Inr initialData \<and>
      NewDocumentFromReader demoLibs out = Inr doc \<and>
      (case doc of
         [] \<Rightarrow> rendered = []
       | node # rest \<Rightarrow>
           (\<exists>as. Render demoLibs (node\<lparr>Attr := as\<rparr>) = Inr rendered \<and>
                 map_of as ''wire:id'' = Some (GenerateRandomString 20 demoRnd) \<and>
                 map_of as ''wire:initial-data'' = Some initialData \<and>
                 (\<forall>k. k \<noteq> ''wire:id'' \<and> k \<noteq> ''wire:initial-data'' \<longrightarrow>
                      map_of as k = map_of (Attr node) k))) \<and>
      demoInitialHtml ''Counter'' ''2'' ''d90be6d2'' ''{"a":1,"b":2}'' =
        rendered @ newline @ ''<!-- Livewire Component wire-end:''
          @ GenerateRandomString 20 demoRnd @ '' -->'' @ newline)\<close>
proof -
  have id: "GenerateRandomString 20 demoRnd = ''k3Xp9QzL2mVt7RwB5cYd''"
    by (simp add: GenerateRandomString_def demoRnd_def upt_rec)
  note t = initial_id_consistent [OF demo_initial_Counter]
  show ?thesis
    by (intro conjI) (rule demo_initial_Counter id t)+
qed

end
